theory Spec2Isabelle
  imports Complex_Main "HOL-Library.AList"
begin

section \<open>Python values and the operations the adapters apply to them\<close>

text \<open>
  The adapters of \<^verbatim>\<open>omgeo/services/__init__.py\<close> work on what \<^verbatim>\<open>json.loads\<close> returns:
  dicts with string keys, lists, strings, numbers, booleans and \<^verbatim>\<open>None\<close>. A dict is an
  association list in insertion order, read with \<open>map_of\<close>. A float is modelled by the
  real number it denotes; nothing below depends on rounding.
\<close>

datatype pyval =
    PNone
  | PBool bool
  | PInt int
  | PFloat real
  | PStr string
  | PList "pyval list"
  | PDict "(string \<times> pyval) list"

datatype py_error =
    KeyError
  | IndexError
  | TypeError
  | ValueError
  | AttributeError
  | OverflowError
  | TransportError

text \<open>Sequencing of statements that may raise: the first exception ends the function.\<close>

definition ebind :: "py_error + 'a \<Rightarrow> ('a \<Rightarrow> py_error + 'b) \<Rightarrow> py_error + 'b" where
  "ebind m f = (case m of Inl e \<Rightarrow> Inl e | Inr x \<Rightarrow> f x)"

text \<open>\<^verbatim>\<open>v['k']\<close>: only a dict can be subscripted with a string.\<close>

fun getitem_key :: "pyval \<Rightarrow> string \<Rightarrow> py_error + pyval" where
  "getitem_key (PDict kvs) k = (case map_of kvs k of None \<Rightarrow> Inl KeyError | Some v \<Rightarrow> Inr v)"
| "getitem_key _ k = Inl TypeError"

text \<open>
  \<^verbatim>\<open>v[i]\<close> with a non-negative integer literal: a list or a string is indexed, a dict
  (whose keys are all strings) has no such key, anything else is not subscriptable.
\<close>

fun getitem_idx :: "pyval \<Rightarrow> nat \<Rightarrow> py_error + pyval" where
  "getitem_idx (PList xs) i = (if i < length xs then Inr (xs ! i) else Inl IndexError)"
| "getitem_idx (PStr s) i = (if i < length s then Inr (PStr [s ! i]) else Inl IndexError)"
| "getitem_idx (PDict kvs) i = Inl KeyError"
| "getitem_idx _ i = Inl TypeError"

text \<open>\<^verbatim>\<open>for r in v\<close>: the items a loop visits.\<close>

fun py_iter :: "pyval \<Rightarrow> py_error + pyval list" where
  "py_iter (PList xs) = Inr xs"
| "py_iter (PStr s) = Inr (map (\<lambda>c. PStr [c]) s)"
| "py_iter (PDict kvs) = Inr (map (\<lambda>kv. PStr (fst kv)) kvs)"
| "py_iter _ = Inl TypeError"

text \<open>\<^verbatim>\<open>v.get(k, d)\<close>: a method of dicts only.\<close>

fun py_get :: "pyval \<Rightarrow> string \<Rightarrow> pyval \<Rightarrow> py_error + pyval" where
  "py_get (PDict kvs) k d = (case map_of kvs k of None \<Rightarrow> Inr d | Some v \<Rightarrow> Inr v)"
| "py_get _ k d = Inl AttributeError"

text \<open>Truth value of an object, as \<^verbatim>\<open>if s\<close> and \<^verbatim>\<open>any\<close> test it.\<close>

fun py_truthy :: "pyval \<Rightarrow> bool" where
  "py_truthy PNone = False"
| "py_truthy (PBool b) = b"
| "py_truthy (PInt i) = (i \<noteq> 0)"
| "py_truthy (PFloat f) = (f \<noteq> 0)"
| "py_truthy (PStr s) = (s \<noteq> [])"
| "py_truthy (PList xs) = (xs \<noteq> [])"
| "py_truthy (PDict kvs) = (kvs \<noteq> [])"

definition py_any :: "pyval list \<Rightarrow> bool" where
  "py_any xs = list_ex py_truthy xs"

fun str_join :: "string \<Rightarrow> string list \<Rightarrow> string" where
  "str_join sep [] = []"
| "str_join sep [x] = x"
| "str_join sep (x # y # ys) = x @ sep @ str_join sep (y # ys)"

fun the_str :: "pyval \<Rightarrow> string option" where
  "the_str (PStr s) = Some s"
| "the_str _ = None"

text \<open>\<^verbatim>\<open>sep.join(xs)\<close>: every item must be a string.\<close>

definition py_join :: "string \<Rightarrow> pyval list \<Rightarrow> py_error + pyval" where
  "py_join sep xs =
     (if list_all (\<lambda>v. the_str v \<noteq> None) xs
      then Inr (PStr (str_join sep (map (\<lambda>v. the (the_str v)) xs)))
      else Inl TypeError)"

section \<open>Candidates\<close>

text \<open>
  A \<^verbatim>\<open>Candidate\<close> is a Python object whose attributes are set by name
  (\<^verbatim>\<open>c.x = ...\<close>, \<^verbatim>\<open>setattr(c, out_key, ...)\<close>): a map from attribute names to values.
\<close>

type_synonym candidate = "string \<rightharpoonup> pyval"

text \<open>
  Modelled from the spec: the constructor \<^verbatim>\<open>Candidate()\<close> of \<^verbatim>\<open>omgeo.places\<close>, which is
  not among the sources. The spec gives one default, the spatial reference: "coordinates
  in a stated spatial reference, default WKID 4326".
\<close>

definition Candidate :: candidate where
  "Candidate = [''wkid'' \<mapsto> PInt 4326]"

text \<open>
  The loop \<^verbatim>\<open>for r in rows: c = ...; returned_candidates.append(c)\<close> shared by the four
  adapters; \<open>mk\<close> is the loop body, which may raise.
\<close>

fun collect :: "(pyval \<Rightarrow> py_error + candidate) \<Rightarrow> pyval list \<Rightarrow> candidate list
    \<Rightarrow> py_error + candidate list" where
  "collect mk [] returned_candidates = Inr returned_candidates"
| "collect mk (r # rs) returned_candidates =
     ebind (mk r) (\<lambda>c. collect mk rs (returned_candidates @ [c]))"

section \<open>What the adapters take from outside this module\<close>

text \<open>
  The transport \<^verbatim>\<open>self._get_json_obj\<close> of the base class and the library functions whose
  results no property below depends on are parameters of the model.
\<close>

record ext =
  get_json_obj :: "string \<Rightarrow> (string \<times> pyval) list \<Rightarrow> py_error + pyval"
  json_dumps :: "pyval \<Rightarrow> string"
  unquote :: "string \<Rightarrow> string"
  format_f :: "real \<Rightarrow> string"
  py_str :: "pyval \<Rightarrow> string"
  float_of_str :: "string \<Rightarrow> real option"
  float_of_int :: "int \<Rightarrow> real option"

record viewbox =
  to_bing_str :: string
  to_mapquest_str :: string

text \<open>
  The query object \<^verbatim>\<open>pq\<close>. The attributes that the code probes with \<^verbatim>\<open>hasattr\<close> are
  optional fields; \<^verbatim>\<open>viewbox\<close> is \<^verbatim>\<open>None\<close> or a viewbox.
\<close>

record place_query =
  query :: string
  address :: string
  city :: string
  subregion :: string
  state :: string
  postal :: string
  country :: string
  viewbox :: "viewbox option"
  bounded :: bool
  culture :: "string option"
  user_ip :: "string option"
  user_lat :: "real option"
  user_lon :: "real option"

type_synonym settings = "string \<rightharpoonup> string"

section \<open>USCensus\<close>

definition USCensus_endpoint_base :: string where
  "USCensus_endpoint_base = ''http://geocoding.geo.census.gov/geocoder/locations/''"

definition is_digit :: "char \<Rightarrow> bool" where
  "is_digit c = (c \<in> set ''0123456789'')"

text \<open>
  \<^verbatim>\<open>re.match(r'([0-9]+)', v)\<close>: the longest run of digits at the start of the string,
  no match when the run is empty, \<^verbatim>\<open>TypeError\<close> when \<open>v\<close> is not a string.
\<close>

fun re_match_digits :: "pyval \<Rightarrow> py_error + string option" where
  "re_match_digits (PStr s) =
     (let g = takeWhile is_digit s in if g = [] then Inr None else Inr (Some g))"
| "re_match_digits _ = Inl TypeError"

definition ordered_fields :: "string list" where
  "ordered_fields = [''preQualifier'', ''preDirection'', ''preType'', ''streetName'',
                     ''suffixType'', ''suffixDirection'', ''suffixQualifier'']"

text \<open>The loop \<^verbatim>\<open>for field in ordered_fields: result.append(...)\<close>.\<close>

fun street_addr_fields :: "pyval \<Rightarrow> string list \<Rightarrow> pyval list \<Rightarrow> py_error + pyval list" where
  "street_addr_fields match [] result = Inr result"
| "street_addr_fields match (field # rest) result =
     ebind (getitem_key match ''addressComponents'') (\<lambda>ac.
     ebind (py_get ac field (PStr [])) (\<lambda>v.
     street_addr_fields match rest (result @ [v])))"

definition street_addr_from_response :: "pyval \<Rightarrow> py_error + pyval" where
  "street_addr_from_response match =
     ebind (getitem_key match ''matchedAddress'') (\<lambda>ma.
     ebind (re_match_digits ma) (\<lambda>addr_num_re.
       case addr_num_re of
         None \<Rightarrow> Inr (PStr [])
       | Some group0 \<Rightarrow>
           ebind (street_addr_fields match ordered_fields [PStr group0]) (\<lambda>result.
             if py_any result then py_join '' '' (filter py_truthy result)
             else Inr (PStr []))))"

text \<open>The endpoint and the query dict that \<^verbatim>\<open>USCensus._geocode\<close> hands to the transport.\<close>

definition USCensus_request :: "place_query \<Rightarrow> string \<times> (string \<times> pyval) list" where
  "USCensus_request pq =
     (let q = [(''format'', PStr ''json''), (''benchmark'', PStr ''Public_AR_Current'')] in
      if query pq \<noteq> [] then
        (USCensus_endpoint_base @ ''onelineaddress'',
         AList.update ''address'' (PStr (query pq)) q)
      else
        (USCensus_endpoint_base @ ''address'',
         AList.update ''zip'' (PStr (postal pq))
           (AList.update ''state'' (PStr (state pq))
             (AList.update ''city'' (PStr (city pq))
               (AList.update ''street'' (PStr (address pq)) q)))))"

text \<open>The loop \<^verbatim>\<open>for in_key, out_key in [...]: setattr(c, out_key, ...)\<close>.\<close>

fun USCensus_components :: "pyval \<Rightarrow> (string \<times> string) list \<Rightarrow> candidate
    \<Rightarrow> py_error + candidate" where
  "USCensus_components r [] c = Inr c"
| "USCensus_components r ((in_key, out_key) # ks) c =
     ebind (getitem_key r ''addressComponents'') (\<lambda>ac.
     ebind (py_get ac in_key (PStr [])) (\<lambda>v.
     USCensus_components r ks (c(out_key \<mapsto> v))))"

definition USCensus_candidate :: "pyval \<Rightarrow> py_error + candidate" where
  "USCensus_candidate r =
     (let c = Candidate in
      ebind (getitem_key r ''matchedAddress'') (\<lambda>match_addr.
      let c = c(''match_addr'' \<mapsto> match_addr) in
      ebind (ebind (getitem_key r ''coordinates'') (\<lambda>co. getitem_key co ''x'')) (\<lambda>x.
      let c = c(''x'' \<mapsto> x) in
      ebind (ebind (getitem_key r ''coordinates'') (\<lambda>co. getitem_key co ''y'')) (\<lambda>y.
      let c = c(''y'' \<mapsto> y) in
      let c = c(''geoservice'' \<mapsto> PStr ''USCensus'') in
      ebind (USCensus_components r
               [(''city'', ''match_city''), (''state'', ''match_region''),
                (''zip'', ''match_postal'')] c) (\<lambda>c.
      let c = c(''match_subregion'' \<mapsto> PStr []) in
      let c = c(''match_country'' \<mapsto> PStr ''USA'') in
      ebind (street_addr_from_response r) (\<lambda>sa.
      let c = c(''match_streetaddr'' \<mapsto> sa) in
      Inr c))))))"

text \<open>The rows of a Census response: \<^verbatim>\<open>response_obj['result']['addressMatches']\<close>.\<close>

definition USCensus_rows :: "pyval \<Rightarrow> py_error + pyval list" where
  "USCensus_rows response_obj =
     ebind (getitem_key response_obj ''result'') (\<lambda>res.
     ebind (getitem_key res ''addressMatches'') py_iter)"

definition USCensus_candidates :: "pyval \<Rightarrow> py_error + candidate list" where
  "USCensus_candidates response_obj =
     ebind (USCensus_rows response_obj) (\<lambda>rows. collect USCensus_candidate rows [])"

definition USCensus_geocode :: "ext \<Rightarrow> place_query \<Rightarrow> py_error + candidate list" where
  "USCensus_geocode x pq =
     (case USCensus_request pq of (this_endpoint, q) \<Rightarrow>
        ebind (get_json_obj x this_endpoint q) USCensus_candidates)"

section \<open>Bing\<close>

definition Bing_endpoint :: string where
  "Bing_endpoint = ''http://dev.virtualearth.net/REST/v1/Locations''"

text \<open>
  \<^verbatim>\<open>str.strip()\<close> removes white space at both ends. A \<open>char\<close> is a code point below
  256; these are the ones Python counts as white space.
\<close>

definition py_isspace :: "char \<Rightarrow> bool" where
  "py_isspace c = ((of_char c :: nat) \<in> {9, 10, 11, 12, 13, 28, 29, 30, 31, 32, 133, 160})"

definition py_strip :: "string \<Rightarrow> string" where
  "py_strip s = rev (dropWhile py_isspace (rev (dropWhile py_isspace s)))"

text \<open>Lines 78 to 86: the query dict before the optional hints and the key are added.\<close>

definition Bing_query :: "place_query \<Rightarrow> (string \<times> pyval) list" where
  "Bing_query pq =
     (if py_strip (query pq) = [] then
        [(''addressLine'', PStr (address pq)),
         (''locality'', PStr (city pq)),
         (''adminDistrict'', PStr (state pq)),
         (''postalCode'', PStr (postal pq)),
         (''countryRegion'', PStr (country pq))]
      else
        [(''query'', PStr (query pq))])"

text \<open>Lines 88 to 98; \<^verbatim>\<open>self._settings['api_key']\<close> raises when the key is not set.\<close>

definition Bing_request :: "ext \<Rightarrow> settings \<Rightarrow> place_query \<Rightarrow> py_error + (string \<times> pyval) list" where
  "Bing_request x st pq =
     (let q = Bing_query pq;
          q = (case viewbox pq of None \<Rightarrow> q
               | Some vb \<Rightarrow> AList.update ''umv'' (PStr (to_bing_str vb)) q);
          q = (case culture pq of None \<Rightarrow> q
               | Some cu \<Rightarrow> AList.update ''c'' (PStr cu) q);
          q = (case user_ip pq of None \<Rightarrow> q
               | Some ip \<Rightarrow> AList.update ''uip'' (PStr ip) q);
          q = (case user_lat pq of None \<Rightarrow> q
               | Some la \<Rightarrow>
                  (case user_lon pq of None \<Rightarrow> q
                   | Some lo \<Rightarrow>
                       AList.update ''ul'' (PStr (format_f x la @ '','' @ format_f x lo)) q))
      in case st ''api_key'' of
           None \<Rightarrow> Inl KeyError
         | Some k \<Rightarrow> Inr (AList.update ''key'' (PStr k) q))"

definition Bing_candidate :: "pyval \<Rightarrow> py_error + candidate" where
  "Bing_candidate r =
     (let c = Candidate in
      ebind (getitem_key r ''entityType'') (\<lambda>entity.
      let c = c(''entity'' \<mapsto> entity) in
      ebind (ebind (ebind (getitem_key r ''geocodePoints'') (\<lambda>g. getitem_idx g 0))
               (\<lambda>g0. getitem_key g0 ''calculationMethod'')) (\<lambda>locator.
      let c = c(''locator'' \<mapsto> locator) in
      ebind (getitem_key r ''confidence'') (\<lambda>confidence.
      let c = c(''confidence'' \<mapsto> confidence) in
      ebind (getitem_key r ''name'') (\<lambda>match_addr.
      let c = c(''match_addr'' \<mapsto> match_addr) in
      ebind (ebind (ebind (ebind (getitem_key r ''geocodePoints'') (\<lambda>g. getitem_idx g 0))
               (\<lambda>g0. getitem_key g0 ''coordinates'')) (\<lambda>co. getitem_idx co 1)) (\<lambda>x.
      let c = c(''x'' \<mapsto> x) in
      ebind (ebind (ebind (ebind (getitem_key r ''geocodePoints'') (\<lambda>g. getitem_idx g 0))
               (\<lambda>g0. getitem_key g0 ''coordinates'')) (\<lambda>co. getitem_idx co 0)) (\<lambda>y.
      let c = c(''y'' \<mapsto> y) in
      let c = c(''wkid'' \<mapsto> PInt 4326) in
      ebind (getitem_key r ''address'') (\<lambda>addr.
      let c = c(''address'' \<mapsto> addr) in
      let c = c(''geoservice'' \<mapsto> PStr ''Bing'') in
      Inr c))))))))"

text \<open>The rows of a Bing response: \<^verbatim>\<open>response_obj['resourceSets'][0]['resources']\<close>.\<close>

definition Bing_rows :: "pyval \<Rightarrow> py_error + pyval list" where
  "Bing_rows response_obj =
     ebind (getitem_key response_obj ''resourceSets'') (\<lambda>sets.
     ebind (getitem_idx sets 0) (\<lambda>set0.
     ebind (getitem_key set0 ''resources'') py_iter))"

definition Bing_candidates :: "pyval \<Rightarrow> py_error + candidate list" where
  "Bing_candidates response_obj =
     ebind (Bing_rows response_obj) (\<lambda>rows. collect Bing_candidate rows [])"

definition Bing_geocode :: "ext \<Rightarrow> settings \<Rightarrow> place_query \<Rightarrow> py_error + candidate list" where
  "Bing_geocode x st pq =
     ebind (Bing_request x st pq) (\<lambda>q.
     ebind (get_json_obj x Bing_endpoint q) Bing_candidates)"

section \<open>MapQuest\<close>

text \<open>
  \<^verbatim>\<open>MapQuestSSL\<close> and \<^verbatim>\<open>MapQuestOpen\<close> inherit \<^verbatim>\<open>_geocode\<close> and differ in the endpoint
  and in \<^verbatim>\<open>self.__class__.__name__\<close>.
\<close>

datatype mapquest_class = MapQuest | MapQuestSSL | MapQuestOpen

fun MapQuest_endpoint :: "mapquest_class \<Rightarrow> string" where
  "MapQuest_endpoint MapQuest = ''http://www.mapquestapi.com/geocoding/v1/address''"
| "MapQuest_endpoint MapQuestSSL = ''https://www.mapquestapi.com/geocoding/v1/address''"
| "MapQuest_endpoint MapQuestOpen = ''http://open.mapquestapi.com/geocoding/v1/address''"

fun class_name :: "mapquest_class \<Rightarrow> string" where
  "class_name MapQuest = ''MapQuest''"
| "class_name MapQuestSSL = ''MapQuestSSL''"
| "class_name MapQuestOpen = ''MapQuestOpen''"

text \<open>Adds each keyword argument whose value is not the empty string, in order.\<close>

fun get_appended_location :: "(string \<times> string) list \<Rightarrow> (string \<times> string) list
    \<Rightarrow> (string \<times> string) list" where
  "get_appended_location location [] = location"
| "get_appended_location location ((kw, v) # kwargs) =
     get_appended_location (if v \<noteq> [] then AList.update kw v location else location) kwargs"

text \<open>Lines 200 to 205: the \<^verbatim>\<open>location\<close> dict.\<close>

definition MapQuest_location :: "place_query \<Rightarrow> (string \<times> string) list" where
  "MapQuest_location pq =
     (let location = [];
          location = get_appended_location location [(''street'', query pq)];
          location = (if location = []
                      then get_appended_location location [(''street'', address pq)]
                      else location)
      in get_appended_location location
           [(''city'', city pq), (''county'', subregion pq), (''state'', state pq),
            (''postalCode'', postal pq), (''country'', country pq)])"

definition MapQuest_request :: "ext \<Rightarrow> settings \<Rightarrow> place_query \<Rightarrow> py_error + (string \<times> pyval) list" where
  "MapQuest_request x st pq =
     (let json = json_dumps x
            (PDict [(''location'', PDict (map (\<lambda>kv. (fst kv, PStr (snd kv))) (MapQuest_location pq)))])
      in case st ''api_key'' of
           None \<Rightarrow> Inl KeyError
         | Some k \<Rightarrow>
             (let q = [(''key'', PStr (unquote x k)), (''json'', PStr json)]
              in Inr (case viewbox pq of None \<Rightarrow> q
                      | Some vb \<Rightarrow> AList.update ''viewbox'' (PStr (to_mapquest_str vb)) q)))"

fun is_substr :: "string \<Rightarrow> string \<Rightarrow> bool" where
  "is_substr k [] = (k = [])"
| "is_substr k (c # s) = (take (length k) (c # s) = k \<or> is_substr k s)"

text \<open>\<^verbatim>\<open>k in v\<close> for a string \<open>k\<close>: a key of a dict, an item of a list, a part of a string.\<close>

fun py_in :: "string \<Rightarrow> pyval \<Rightarrow> py_error + bool" where
  "py_in k (PDict kvs) = Inr (map_of kvs k \<noteq> None)"
| "py_in k (PList xs) = Inr (PStr k \<in> set xs)"
| "py_in k (PStr s) = Inr (is_substr k s)"
| "py_in k _ = Inl TypeError"

text \<open>The comprehension \<^verbatim>\<open>[r[k] for k in match_addr_elements if k in r]\<close>.\<close>

fun match_addr_values :: "pyval \<Rightarrow> string list \<Rightarrow> py_error + pyval list" where
  "match_addr_values r [] = Inr []"
| "match_addr_values r (k # ks) =
     ebind (py_in k r) (\<lambda>present.
       if present then
         ebind (getitem_key r k) (\<lambda>v.
         ebind (match_addr_values r ks) (\<lambda>vs. Inr (v # vs)))
       else match_addr_values r ks)"

definition match_addr_elements :: "string list" where
  "match_addr_elements = [''street'', ''adminArea5'', ''adminArea3'', ''adminArea2'', ''postalCode'']"

definition MapQuest_candidate :: "mapquest_class \<Rightarrow> pyval \<Rightarrow> py_error + candidate" where
  "MapQuest_candidate cls r =
     (let c = Candidate in
      ebind (getitem_key r ''geocodeQuality'') (\<lambda>locator.
      let c = c(''locator'' \<mapsto> locator) in
      ebind (getitem_key r ''geocodeQualityCode'') (\<lambda>confidence.
      let c = c(''confidence'' \<mapsto> confidence) in
      ebind (ebind (match_addr_values r match_addr_elements) (py_join '', '')) (\<lambda>match_addr.
      let c = c(''match_addr'' \<mapsto> match_addr) in
      ebind (ebind (getitem_key r ''latLng'') (\<lambda>ll. getitem_key ll ''lng'')) (\<lambda>x.
      let c = c(''x'' \<mapsto> x) in
      ebind (ebind (getitem_key r ''latLng'') (\<lambda>ll. getitem_key ll ''lat'')) (\<lambda>y.
      let c = c(''y'' \<mapsto> y) in
      let c = c(''wkid'' \<mapsto> PInt 4326) in
      let c = c(''geoservice'' \<mapsto> PStr (class_name cls)) in
      Inr c))))))"

text \<open>The rows of a MapQuest response: \<^verbatim>\<open>response_obj['results'][0]['locations']\<close>.\<close>

definition MapQuest_rows :: "pyval \<Rightarrow> py_error + pyval list" where
  "MapQuest_rows response_obj =
     ebind (getitem_key response_obj ''results'') (\<lambda>results.
     ebind (getitem_idx results 0) (\<lambda>res0.
     ebind (getitem_key res0 ''locations'') py_iter))"

definition MapQuest_candidates :: "mapquest_class \<Rightarrow> pyval \<Rightarrow> py_error + candidate list" where
  "MapQuest_candidates cls response_obj =
     ebind (MapQuest_rows response_obj) (\<lambda>rows. collect (MapQuest_candidate cls) rows [])"

definition MapQuest_geocode :: "mapquest_class \<Rightarrow> ext \<Rightarrow> settings \<Rightarrow> place_query
    \<Rightarrow> py_error + candidate list" where
  "MapQuest_geocode cls x st pq =
     ebind (MapQuest_request x st pq) (\<lambda>q.
     ebind (get_json_obj x (MapQuest_endpoint cls) q) (MapQuest_candidates cls))"

section \<open>Nominatim\<close>

definition Nominatim_wkid :: int where
  "Nominatim_wkid = 4326"

definition Nominatim_endpoint :: string where
  "Nominatim_endpoint = ''http://open.mapquestapi.com/nominatim/v1/search''"

definition Nominatim_request :: "place_query \<Rightarrow> (string \<times> pyval) list" where
  "Nominatim_request pq =
     (let q = [(''q'', PStr (query pq)),
               (''countrycodes'', PStr (country pq)),
               (''format'', PStr ''json'')]
      in case viewbox pq of None \<Rightarrow> q
         | Some vb \<Rightarrow>
             AList.update ''bounded'' (PBool (bounded pq))
               (AList.update ''viewbox'' (PStr (to_mapquest_str vb)) q))"

text \<open>
  \<^verbatim>\<open>float(v)\<close>: a number is converted, a string is parsed, anything else is a
  \<^verbatim>\<open>TypeError\<close>. The parser and the conversion of an integer (which overflows beyond the
  range of a double) are parameters.
\<close>

fun py_float :: "ext \<Rightarrow> pyval \<Rightarrow> py_error + pyval" where
  "py_float x (PFloat f) = Inr (PFloat f)"
| "py_float x (PInt i) =
     (case float_of_int x i of None \<Rightarrow> Inl OverflowError | Some f \<Rightarrow> Inr (PFloat f))"
| "py_float x (PBool b) = Inr (PFloat (if b then 1 else 0))"
| "py_float x (PStr s) =
     (case float_of_str x s of None \<Rightarrow> Inl ValueError | Some f \<Rightarrow> Inr (PFloat f))"
| "py_float x _ = Inl TypeError"

text \<open>The conversion \<^verbatim>\<open>%s\<close>: a string is kept, any other value goes through \<^verbatim>\<open>str\<close>.\<close>

fun format_s :: "ext \<Rightarrow> pyval \<Rightarrow> string" where
  "format_s x (PStr s) = s"
| "format_s x v = py_str x v"

definition Nominatim_candidate :: "ext \<Rightarrow> pyval \<Rightarrow> py_error + candidate" where
  "Nominatim_candidate x r =
     (let c = Candidate in
      let c = c(''locator'' \<mapsto> PStr ''parcel'') in
      ebind (getitem_key r ''class'') (\<lambda>cl.
      ebind (getitem_key r ''type'') (\<lambda>ty.
      let c = c(''entity'' \<mapsto> PStr (format_s x cl @ ''.'' @ format_s x ty)) in
      ebind (getitem_key r ''display_name'') (\<lambda>match_addr.
      let c = c(''match_addr'' \<mapsto> match_addr) in
      ebind (ebind (getitem_key r ''lon'') (py_float x)) (\<lambda>xv.
      let c = c(''x'' \<mapsto> xv) in
      ebind (ebind (getitem_key r ''lat'') (py_float x)) (\<lambda>yv.
      let c = c(''y'' \<mapsto> yv) in
      let c = c(''wkid'' \<mapsto> PInt Nominatim_wkid) in
      let c = c(''geoservice'' \<mapsto> PStr ''Nominatim'') in
      Inr c))))))"

definition Nominatim_candidates :: "ext \<Rightarrow> pyval \<Rightarrow> py_error + candidate list" where
  "Nominatim_candidates x response_obj =
     ebind (py_iter response_obj) (\<lambda>rows. collect (Nominatim_candidate x) rows [])"

definition Nominatim_geocode :: "ext \<Rightarrow> place_query \<Rightarrow> py_error + candidate list" where
  "Nominatim_geocode x pq =
     ebind (get_json_obj x Nominatim_endpoint (Nominatim_request pq)) (Nominatim_candidates x)"

section \<open>Default processor lists and constructors\<close>

text \<open>
  The processors are objects of \<^verbatim>\<open>omgeo.preprocessors\<close> and \<^verbatim>\<open>omgeo.postprocessors\<close>;
  this module only constructs them, so a processor is the constructor call with the
  arguments written in the source (\<open>None\<close> for a keyword argument left out).
\<close>

datatype preprocessor = ReplaceRangeWithNumber

datatype group_key = Attr string | Attrs "string list"

datatype postprocessor =
    AttrFilter "string list" string "bool option"
  | AttrExclude "string list" string
  | AttrRename string "(string \<times> string) list"
  | AttrSorter "string list" string
  | AttrMigrator string string "(string \<times> int) list"
  | UseHighScoreIfAtLeast int
  | GroupBy group_key
  | ScoreSorter

definition Bing_DEFAULT_PREPROCESSORS :: "preprocessor list" where
  "Bing_DEFAULT_PREPROCESSORS = [ReplaceRangeWithNumber]"

text \<open>
  The body of class \<^verbatim>\<open>Bing\<close> assigns \<^verbatim>\<open>DEFAULT_POSTPROCESSORS\<close> twice, at line 35 and at
  line 70. These are the assigned values in order; the class attribute is the last.
\<close>

definition Bing_DEFAULT_POSTPROCESSORS_assigned :: "postprocessor list list" where
  "Bing_DEFAULT_POSTPROCESSORS_assigned =
     [[AttrMigrator ''confidence'' ''score'' [(''High'', 100), (''Medium'', 85), (''Low'', 50)],
       UseHighScoreIfAtLeast 100,
       AttrFilter [''Address'', ''AdministrativeBuilding'',
                   ''AgriculturalStructure'',
                   ''BusinessName'', ''BusinessStructure'',
                   ''BusStation'', ''Camp'', ''Church'', ''CityHall'',
                   ''CommunityCenter'', ''ConventionCenter'',
                   ''Courthouse'', ''Factory'', ''FerryTerminal'',
                   ''FishHatchery'', ''Fort'', ''Garden'', ''Geyser'',
                   ''Heliport'', ''IndustrialStructure'',
                   ''InformationCenter'', ''Junction'',
                   ''LandmarkBuilding'', ''Library'', ''Lighthouse'',
                   ''Marina'', ''MedicalStructure'', ''MetroStation'',
                   ''Mine'', ''Mission'', ''Monument'', ''Mosque'',
                   ''Museum'', ''NauticalStructure'', ''NavigationalStructure'',
                   ''OfficeBuilding'', ''ParkAndRide'', ''PlayingField'',
                   ''PoliceStation'', ''PostOffice'', ''PowerStation'',
                   ''Prison'', ''RaceTrack'', ''ReligiousStructure'',
                   ''RestArea'', ''Ruin'', ''ShoppingCenter'', ''Site'',
                   ''SkiArea'', ''Spring'', ''Stadium'', ''Temple'',
                   ''TouristStructure''] ''entity'' None,
       AttrRename ''locator'' [(''Rooftop'', ''rooftop''),
                               (''Parcel'', ''parcel''),
                               (''ParcelCentroid'', ''parcel''),
                               (''Interpolation'', ''interpolation''),
                               (''InterpolationOffset'', ''interpolation_offset'')],
       AttrSorter [''rooftop'', ''parcel'',
                   ''interpolation_offset'', ''interpolation'']
                  ''locator'',
       AttrSorter [''Address''] ''entity'',
       ScoreSorter,
       GroupBy (Attrs [''x'', ''y'']),
       GroupBy (Attr ''match_addr'')],
      []]"

definition Bing_DEFAULT_POSTPROCESSORS :: "postprocessor list" where
  "Bing_DEFAULT_POSTPROCESSORS = last Bing_DEFAULT_POSTPROCESSORS_assigned"

text \<open>
  Modelled from the spec: \<^verbatim>\<open>GeocodeService.__init__\<close> of \<^verbatim>\<open>omgeo.services.base\<close>, which
  is not among the sources. By the spec a provider's lists may be overridden "wholesale
  at construction time": the service runs the lists its constructor is given.
\<close>

record geocode_service =
  preprocessors :: "preprocessor list"
  postprocessors :: "postprocessor list"
  service_settings :: "settings option"

definition GeocodeService_init :: "preprocessor list \<Rightarrow> postprocessor list \<Rightarrow> settings option
    \<Rightarrow> geocode_service" where
  "GeocodeService_init pre post st =
     \<lparr>preprocessors = pre, postprocessors = post, service_settings = st\<rparr>"

definition Bing_init :: "preprocessor list option \<Rightarrow> postprocessor list option \<Rightarrow> settings option
    \<Rightarrow> geocode_service" where
  "Bing_init pre post st =
     (let pre = (case pre of None \<Rightarrow> Bing_DEFAULT_PREPROCESSORS | Some p \<Rightarrow> p);
          post = (case post of None \<Rightarrow> Bing_DEFAULT_POSTPROCESSORS | Some p \<Rightarrow> p)
      in GeocodeService_init pre post st)"

definition DEFAULT_ACCEPTED_ENTITIES :: "string list" where
  "DEFAULT_ACCEPTED_ENTITIES =
     [''building.'', ''historic.castle'', ''leisure.ice_rink'',
      ''leisure.miniature_golf'',
      ''leisure.sports_centre'', ''lesiure.stadium'', ''leisure.track'',
      ''lesiure.water_park'', ''man_made.lighthouse'', ''man_made.works'',
      ''military.barracks'', ''military.bunker'', ''office.'', ''place.house'',
      ''amenity.'', ''power.generator'', ''railway.station'',
      ''shop.'', ''tourism.'']"

definition DEFAULT_REJECTED_ENTITIES :: "string list" where
  "DEFAULT_REJECTED_ENTITIES =
     [''amenity.drinking_water'',
      ''amentity.bicycle_parking'', ''amentity.ev_charging'',
      ''amentity.grit_bin'', ''amentity.atm'',
      ''amentity.hunting_stand'', ''amentity.post_box'']"

definition Nominatim_DEFAULT_PREPROCESSORS :: "preprocessor list" where
  "Nominatim_DEFAULT_PREPROCESSORS = [ReplaceRangeWithNumber]"

definition Nominatim_DEFAULT_POSTPROCESSORS :: "postprocessor list" where
  "Nominatim_DEFAULT_POSTPROCESSORS =
     [AttrFilter DEFAULT_ACCEPTED_ENTITIES ''entity'' (Some False),
      AttrExclude DEFAULT_REJECTED_ENTITIES ''entity'']"

definition Nominatim_init :: "preprocessor list option \<Rightarrow> postprocessor list option
    \<Rightarrow> settings option \<Rightarrow> geocode_service" where
  "Nominatim_init pre post st =
     (let pre = (case pre of None \<Rightarrow> Nominatim_DEFAULT_PREPROCESSORS | Some p \<Rightarrow> p);
          post = (case post of None \<Rightarrow> Nominatim_DEFAULT_POSTPROCESSORS | Some p \<Rightarrow> p)
      in GeocodeService_init pre post st)"

subsection \<open>The ordering convention of the default lists\<close>

text \<open>The four groups of stages that the convention orders.\<close>

fun is_filter :: "postprocessor \<Rightarrow> bool" where
  "is_filter (AttrFilter vs a e) = True"
| "is_filter (AttrExclude vs a) = True"
| "is_filter _ = False"

fun is_rename :: "postprocessor \<Rightarrow> bool" where
  "is_rename (AttrRename a m) = True"
| "is_rename (AttrMigrator a b m) = True"
| "is_rename _ = False"

fun is_sort :: "postprocessor \<Rightarrow> bool" where
  "is_sort (AttrSorter vs a) = True"
| "is_sort ScoreSorter = True"
| "is_sort _ = False"

fun is_group :: "postprocessor \<Rightarrow> bool" where
  "is_group (GroupBy k) = True"
| "is_group _ = False"

text \<open>All stages of kind \<open>A\<close> come before all stages of kind \<open>B\<close>: no \<open>A\<close> follows a \<open>B\<close>.\<close>

fun all_before :: "(postprocessor \<Rightarrow> bool) \<Rightarrow> (postprocessor \<Rightarrow> bool) \<Rightarrow> postprocessor list
    \<Rightarrow> bool" where
  "all_before A B [] = True"
| "all_before A B (p # ps) = (\<not> (B p \<and> list_ex A ps) \<and> all_before A B ps)"

definition ordering_rule :: "postprocessor list \<Rightarrow> bool" where
  "ordering_rule ps =
     (all_before is_filter is_rename ps \<and> all_before is_rename is_sort ps
      \<and> all_before is_sort is_group ps)"

section \<open>Notions used to state the properties\<close>

text \<open>
  A field of a row is reached by a path of subscripts, as in
  \<^verbatim>\<open>r['geocodePoints'][0]['coordinates'][1]\<close>; the field is missing when the path raises.
\<close>

datatype step = Key string | Idx nat

fun py_path :: "pyval \<Rightarrow> step list \<Rightarrow> py_error + pyval" where
  "py_path v [] = Inr v"
| "py_path v (Key k # p) = ebind (getitem_key v k) (\<lambda>w. py_path w p)"
| "py_path v (Idx i # p) = ebind (getitem_idx v i) (\<lambda>w. py_path w p)"





text \<open>\<^verbatim>\<open>d.get(k, '')\<close> on the entries of a dict.\<close>

definition get_or_empty :: "(string \<times> pyval) list \<Rightarrow> string \<Rightarrow> pyval" where
  "get_or_empty kvs k = (case map_of kvs k of None \<Rightarrow> PStr [] | Some v \<Rightarrow> v)"



fun stage_class :: "postprocessor \<Rightarrow> string" where
  "stage_class (AttrFilter vs a e) = ''AttrFilter''"
| "stage_class (AttrExclude vs a) = ''AttrExclude''"
| "stage_class (AttrRename a m) = ''AttrRename''"
| "stage_class (AttrSorter vs a) = ''AttrSorter''"
| "stage_class (AttrMigrator a b m) = ''AttrMigrator''"
| "stage_class (UseHighScoreIfAtLeast n) = ''UseHighScoreIfAtLeast''"
| "stage_class (GroupBy k) = ''GroupBy''"
| "stage_class ScoreSorter = ''ScoreSorter''"

section \<open>Sample requests and responses\<close>

text \<open>A transport that answers every request with the given response.\<close>

definition sample_ext :: "pyval \<Rightarrow> ext" where
  "sample_ext response_obj =
     \<lparr>get_json_obj = (\<lambda>endpoint q. Inr response_obj),
      json_dumps = (\<lambda>v. []),
      unquote = (\<lambda>s. s),
      format_f = (\<lambda>f. []),
      py_str = (\<lambda>v. []),
      float_of_str = (\<lambda>s. if s = ''-75.16'' then Some (-75.16)
                          else if s = ''39.95'' then Some 39.95 else None),
      float_of_int = (\<lambda>i. Some (of_int i))\<rparr>"

definition sample_settings :: settings where
  "sample_settings = [''api_key'' \<mapsto> ''secret'']"

definition sample_query :: place_query where
  "sample_query =
     \<lparr>query = ''340 N 12th St, Philadelphia'', address = ''340 N 12th St'',
      city = ''Philadelphia'', subregion = [], state = ''PA'', postal = ''19107'',
      country = ''US'', viewbox = None, bounded = False, culture = None, user_ip = None,
      user_lat = None, user_lon = None\<rparr>"

definition sample_Bing_row :: pyval where
  "sample_Bing_row =
     PDict [(''entityType'', PStr ''Address''),
            (''geocodePoints'',
               PList [PDict [(''calculationMethod'', PStr ''Parcel''),
                             (''coordinates'', PList [PFloat 47.64, PFloat (-122.13)])]]),
            (''confidence'', PStr ''High''),
            (''name'', PStr ''1 Microsoft Way, Redmond, WA 98052''),
            (''address'', PDict [(''locality'', PStr ''Redmond'')])]"

definition sample_Bing_response :: pyval where
  "sample_Bing_response =
     PDict [(''resourceSets'', PList [PDict [(''resources'', PList [sample_Bing_row])]])]"

definition sample_Bing_candidate :: candidate where
  "sample_Bing_candidate =
     [''wkid'' \<mapsto> PInt 4326,
      ''entity'' \<mapsto> PStr ''Address'',
      ''locator'' \<mapsto> PStr ''Parcel'',
      ''confidence'' \<mapsto> PStr ''High'',
      ''match_addr'' \<mapsto> PStr ''1 Microsoft Way, Redmond, WA 98052'',
      ''x'' \<mapsto> PFloat (-122.13),
      ''y'' \<mapsto> PFloat 47.64,
      ''wkid'' \<mapsto> PInt 4326,
      ''address'' \<mapsto> PDict [(''locality'', PStr ''Redmond'')],
      ''geoservice'' \<mapsto> PStr ''Bing'']"

text \<open>A Census match whose address components have no \<^verbatim>\<open>zip\<close>.\<close>

definition sample_USCensus_components :: "(string \<times> pyval) list" where
  "sample_USCensus_components =
     [(''fromAddress'', PStr ''300''), (''toAddress'', PStr ''398''),
      (''preDirection'', PStr ''N''), (''streetName'', PStr ''12TH''),
      (''suffixType'', PStr ''ST''), (''city'', PStr ''PHILADELPHIA''),
      (''state'', PStr ''PA'')]"

definition sample_USCensus_row :: pyval where
  "sample_USCensus_row =
     PDict [(''matchedAddress'', PStr ''340 N 12TH ST, PHILADELPHIA, PA''),
            (''coordinates'', PDict [(''x'', PFloat (-75.16)), (''y'', PFloat 39.95)]),
            (''addressComponents'', PDict sample_USCensus_components)]"


definition sample_USCensus_response :: pyval where
  "sample_USCensus_response =
     PDict [(''result'', PDict [(''addressMatches'', PList [sample_USCensus_row])])]"

definition sample_USCensus_candidate :: candidate where
  "sample_USCensus_candidate =
     [''wkid'' \<mapsto> PInt 4326,
      ''match_addr'' \<mapsto> PStr ''340 N 12TH ST, PHILADELPHIA, PA'',
      ''x'' \<mapsto> PFloat (-75.16),
      ''y'' \<mapsto> PFloat 39.95,
      ''geoservice'' \<mapsto> PStr ''USCensus'',
      ''match_city'' \<mapsto> PStr ''PHILADELPHIA'',
      ''match_region'' \<mapsto> PStr ''PA'',
      ''match_postal'' \<mapsto> PStr [],
      ''match_subregion'' \<mapsto> PStr [],
      ''match_country'' \<mapsto> PStr ''USA'',
      ''match_streetaddr'' \<mapsto> PStr ''340 N 12TH ST'']"

definition sample_MapQuest_row :: pyval where
  "sample_MapQuest_row =
     PDict [(''geocodeQuality'', PStr ''ADDRESS''),
            (''geocodeQualityCode'', PStr ''L1AAA''),
            (''street'', PStr ''340 N 12th St''),
            (''adminArea5'', PStr ''Philadelphia''),
            (''adminArea3'', PStr ''PA''),
            (''postalCode'', PStr ''19107''),
            (''latLng'', PDict [(''lng'', PFloat (-75.16)), (''lat'', PFloat 39.95)])]"

definition sample_MapQuest_response :: pyval where
  "sample_MapQuest_response =
     PDict [(''results'', PList [PDict [(''locations'', PList [sample_MapQuest_row])]])]"

definition sample_MapQuest_candidate :: candidate where
  "sample_MapQuest_candidate =
     [''wkid'' \<mapsto> PInt 4326,
      ''locator'' \<mapsto> PStr ''ADDRESS'',
      ''confidence'' \<mapsto> PStr ''L1AAA'',
      ''match_addr'' \<mapsto> PStr ''340 N 12th St, Philadelphia, PA, 19107'',
      ''x'' \<mapsto> PFloat (-75.16),
      ''y'' \<mapsto> PFloat 39.95,
      ''wkid'' \<mapsto> PInt 4326,
      ''geoservice'' \<mapsto> PStr ''MapQuest'']"

text \<open>Nominatim delivers the coordinates as strings.\<close>

definition sample_Nominatim_row :: pyval where
  "sample_Nominatim_row =
     PDict [(''class'', PStr ''place''),
            (''type'', PStr ''house''),
            (''display_name'', PStr ''Wolf Building, 340, N 12th St, Philadelphia''),
            (''lon'', PStr ''-75.16''),
            (''lat'', PStr ''39.95'')]"

definition sample_Nominatim_response :: pyval where
  "sample_Nominatim_response = PList [sample_Nominatim_row]"

definition sample_Nominatim_candidate :: candidate where
  "sample_Nominatim_candidate =
     [''wkid'' \<mapsto> PInt 4326,
      ''locator'' \<mapsto> PStr ''parcel'',
      ''entity'' \<mapsto> PStr ''place.house'',
      ''match_addr'' \<mapsto> PStr ''Wolf Building, 340, N 12th St, Philadelphia'',
      ''x'' \<mapsto> PFloat (-75.16),
      ''y'' \<mapsto> PFloat 39.95,
      ''wkid'' \<mapsto> PInt 4326,
      ''geoservice'' \<mapsto> PStr ''Nominatim'']"

text \<open>Responses with no rows.\<close>

definition empty_Bing_response :: pyval where
  "empty_Bing_response = PDict [(''resourceSets'', PList [PDict [(''resources'', PList [])]])]"

definition empty_USCensus_response :: pyval where
  "empty_USCensus_response = PDict [(''result'', PDict [(''addressMatches'', PList [])])]"

definition empty_MapQuest_response :: pyval where
  "empty_MapQuest_response = PDict [(''results'', PList [PDict [(''locations'', PList [])]])]"




text \<open>A Bing resource whose coordinates are strings, and the candidate made from it.\<close>

definition string_Bing_row :: pyval where
  "string_Bing_row =
     PDict [(''entityType'', PStr ''Address''),
            (''geocodePoints'',
               PList [PDict [(''calculationMethod'', PStr ''Parcel''),
                             (''coordinates'', PList [PStr ''47.64'', PStr ''-122.13''])]]),
            (''confidence'', PStr ''High''),
            (''name'', PStr ''1 Microsoft Way, Redmond, WA 98052''),
            (''address'', PDict [(''locality'', PStr ''Redmond'')])]"

definition string_Bing_response :: pyval where
  "string_Bing_response =
     PDict [(''resourceSets'', PList [PDict [(''resources'', PList [string_Bing_row])]])]"

definition string_Bing_candidate :: candidate where
  "string_Bing_candidate =
     [''wkid'' \<mapsto> PInt 4326,
      ''entity'' \<mapsto> PStr ''Address'',
      ''locator'' \<mapsto> PStr ''Parcel'',
      ''confidence'' \<mapsto> PStr ''High'',
      ''match_addr'' \<mapsto> PStr ''1 Microsoft Way, Redmond, WA 98052'',
      ''x'' \<mapsto> PStr ''-122.13'',
      ''y'' \<mapsto> PStr ''47.64'',
      ''wkid'' \<mapsto> PInt 4326,
      ''address'' \<mapsto> PDict [(''locality'', PStr ''Redmond'')],
      ''geoservice'' \<mapsto> PStr ''Bing'']"





section \<open>Basic facts about the model\<close>

lemma ebind_Inr_iff: "ebind m f = Inr y \<longleftrightarrow> (\<exists>x. m = Inr x \<and> f x = Inr y)"
  by (cases m) (simp_all add: ebind_def)

lemma ebind_simps [simp]: "ebind (Inl e) f = Inl e" "ebind (Inr v) f = f v"
  by (simp_all add: ebind_def)

lemma collect_Inr_iff:
  "collect mk rs acc = Inr cs \<longleftrightarrow> (\<exists>cs'. cs = acc @ cs' \<and> list_all2 (\<lambda>r c. mk r = Inr c) rs cs')"
proof (induction rs arbitrary: acc)
  case Nil
  show ?case by auto
next
  case (Cons r rs)
  show ?case
  proof (cases "mk r")
    case (Inl e)
    then show ?thesis by (auto simp: list_all2_Cons1)
  next
    case (Inr c)
    then show ?thesis by (auto simp: Cons.IH list_all2_Cons1)
  qed
qed

lemma collect_all:
  assumes "collect mk rs [] = Inr cs" "\<And>r c. mk r = Inr c \<Longrightarrow> P c" "c \<in> set cs"
  shows "P c"
proof -
  from assms(1) have "list_all2 (\<lambda>r c. mk r = Inr c) rs cs" by (simp add: collect_Inr_iff)
  with assms(3) obtain r where "mk r = Inr c"
    by (auto simp: list_all2_conv_all_nth in_set_conv_nth)
  then show ?thesis by (rule assms(2))
qed

lemma collect_raises:
  assumes "r \<in> set rs" "mk r = Inl e"
  shows "\<exists>e'. collect mk rs acc = Inl e'"
proof (cases "collect mk rs acc")
  case (Inl e') then show ?thesis by blast
next
  case (Inr cs)
  then obtain cs' where "list_all2 (\<lambda>r c. mk r = Inr c) rs cs'" by (auto simp: collect_Inr_iff)
  with assms(1) obtain c where "mk r = Inr c"
    by (auto simp: list_all2_conv_all_nth in_set_conv_nth)
  with assms(2) show ?thesis by simp
qed

lemma Bing_candidate_geoservice:
  "Bing_candidate r = Inr c \<Longrightarrow> c ''geoservice'' = Some (PStr ''Bing'') \<and> c ''wkid'' = Some (PInt 4326)"
  by (auto simp: Bing_candidate_def Let_def ebind_Inr_iff)

lemma USCensus_components_other:
  "USCensus_components r ks c = Inr c' \<Longrightarrow> k \<notin> snd ` set ks \<Longrightarrow> c' k = c k"
  by (induction r ks c rule: USCensus_components.induct) (auto simp: ebind_Inr_iff)

lemma USCensus_candidate_geoservice:
  "USCensus_candidate r = Inr c \<Longrightarrow> c ''geoservice'' = Some (PStr ''USCensus'') \<and> c ''wkid'' = Some (PInt 4326)"
  by (auto simp: USCensus_candidate_def Let_def ebind_Inr_iff Candidate_def dest!: USCensus_components_other[where k="''geoservice''"]  USCensus_components_other[where k="''wkid''"])

lemma MapQuest_candidate_geoservice:
  "MapQuest_candidate cls r = Inr c \<Longrightarrow> c ''geoservice'' = Some (PStr (class_name cls)) \<and> c ''wkid'' = Some (PInt 4326)"
  by (auto simp: MapQuest_candidate_def Let_def ebind_Inr_iff)

lemma Nominatim_candidate_geoservice:
  "Nominatim_candidate x r = Inr c \<Longrightarrow> c ''geoservice'' = Some (PStr ''Nominatim'') \<and> c ''wkid'' = Some (PInt 4326)"
  by (auto simp: Nominatim_candidate_def Let_def ebind_Inr_iff Nominatim_wkid_def)

subsection \<open>The sample requests, evaluated\<close>

lemma py_strip_sample: "py_strip (query sample_query) \<noteq> []"
  by (simp add: py_strip_def sample_query_def py_isspace_def)

lemma sample_Bing_request:
  "Bing_request (sample_ext r) sample_settings sample_query =
     Inr [(''query'', PStr ''340 N 12th St, Philadelphia''), (''key'', PStr ''secret'')]"
  using py_strip_sample
  by (simp add: Bing_request_def Bing_query_def sample_settings_def Let_def)
     (simp add: sample_query_def)

lemma sample_Bing_rows: "Bing_rows sample_Bing_response = Inr [sample_Bing_row]"
  by (simp add: Bing_rows_def sample_Bing_response_def)

lemma sample_Bing_row_candidate: "Bing_candidate sample_Bing_row = Inr sample_Bing_candidate"
  by (simp add: Bing_candidate_def sample_Bing_row_def sample_Bing_candidate_def Candidate_def Let_def)

lemma sample_Bing_geocode:
  "Bing_geocode (sample_ext sample_Bing_response) sample_settings sample_query = Inr [sample_Bing_candidate]"
  by (simp add: Bing_geocode_def sample_Bing_request Bing_candidates_def sample_Bing_rows sample_Bing_row_candidate)
     (simp add: sample_ext_def Bing_candidates_def sample_Bing_rows sample_Bing_row_candidate)

lemma sample_USCensus_rows: "USCensus_rows sample_USCensus_response = Inr [sample_USCensus_row]"
  by (simp add: USCensus_rows_def sample_USCensus_response_def)

lemma sample_street_addr:
  "street_addr_from_response sample_USCensus_row = Inr (PStr ''340 N 12TH ST'')"
  by (simp add: street_addr_from_response_def sample_USCensus_row_def is_digit_def
      sample_USCensus_components_def ordered_fields_def py_any_def py_join_def)

lemma sample_USCensus_row_candidate:
  "USCensus_candidate sample_USCensus_row = Inr sample_USCensus_candidate"
  by (simp add: USCensus_candidate_def Let_def sample_street_addr)
     (simp add: sample_USCensus_row_def sample_USCensus_components_def
        sample_USCensus_candidate_def Candidate_def)

lemma sample_USCensus_geocode:
  "USCensus_geocode (sample_ext sample_USCensus_response) sample_query = Inr [sample_USCensus_candidate]"
  by (simp add: USCensus_geocode_def sample_ext_def USCensus_candidates_def sample_USCensus_rows
      sample_USCensus_row_candidate split: prod.split)

lemma sample_MapQuest_rows: "MapQuest_rows sample_MapQuest_response = Inr [sample_MapQuest_row]"
  by (simp add: MapQuest_rows_def sample_MapQuest_response_def)

lemma sample_MapQuest_row_candidate:
  "MapQuest_candidate MapQuest sample_MapQuest_row = Inr sample_MapQuest_candidate"
  by (simp add: MapQuest_candidate_def Let_def sample_MapQuest_row_def sample_MapQuest_candidate_def
      Candidate_def match_addr_elements_def py_join_def)

lemma sample_MapQuest_geocode:
  "MapQuest_geocode MapQuest (sample_ext sample_MapQuest_response) sample_settings sample_query
     = Inr [sample_MapQuest_candidate]"
  by (simp add: MapQuest_geocode_def MapQuest_request_def sample_settings_def sample_ext_def
      MapQuest_candidates_def sample_MapQuest_rows sample_MapQuest_row_candidate Let_def
      split: option.split)

lemma sample_Nominatim_row_candidate:
  "Nominatim_candidate (sample_ext r) sample_Nominatim_row = Inr sample_Nominatim_candidate"
  by (simp add: Nominatim_candidate_def Let_def sample_Nominatim_row_def
      sample_Nominatim_candidate_def Candidate_def sample_ext_def Nominatim_wkid_def)

lemma sample_ext_get [simp]: "get_json_obj (sample_ext r) endpoint q = Inr r"
  by (simp add: sample_ext_def)

lemma sample_Nominatim_geocode:
  "Nominatim_geocode (sample_ext sample_Nominatim_response) sample_query
     = Inr [sample_Nominatim_candidate]"
  by (simp add: Nominatim_geocode_def Nominatim_candidates_def sample_Nominatim_row_candidate
      sample_Nominatim_response_def)

lemma Bing_geocode_Inr_iff:
  "Bing_geocode x st pq = Inr cs \<longleftrightarrow>
     (\<exists>q resp rows. Bing_request x st pq = Inr q \<and> get_json_obj x Bing_endpoint q = Inr resp
        \<and> Bing_rows resp = Inr rows \<and> list_all2 (\<lambda>r c. Bing_candidate r = Inr c) rows cs)"
  by (auto simp: Bing_geocode_def Bing_candidates_def ebind_Inr_iff collect_Inr_iff)

lemma USCensus_geocode_Inr_iff:
  "USCensus_geocode x pq = Inr cs \<longleftrightarrow>
     (\<exists>resp rows. get_json_obj x (fst (USCensus_request pq)) (snd (USCensus_request pq)) = Inr resp
        \<and> USCensus_rows resp = Inr rows \<and> list_all2 (\<lambda>r c. USCensus_candidate r = Inr c) rows cs)"
  by (auto simp: USCensus_geocode_def USCensus_candidates_def ebind_Inr_iff collect_Inr_iff
      split: prod.splits)

lemma MapQuest_geocode_Inr_iff:
  "MapQuest_geocode cls x st pq = Inr cs \<longleftrightarrow>
     (\<exists>q resp rows. MapQuest_request x st pq = Inr q
        \<and> get_json_obj x (MapQuest_endpoint cls) q = Inr resp
        \<and> MapQuest_rows resp = Inr rows
        \<and> list_all2 (\<lambda>r c. MapQuest_candidate cls r = Inr c) rows cs)"
  by (auto simp: MapQuest_geocode_def MapQuest_candidates_def ebind_Inr_iff collect_Inr_iff)

lemma Nominatim_geocode_Inr_iff:
  "Nominatim_geocode x pq = Inr cs \<longleftrightarrow>
     (\<exists>resp rows. get_json_obj x Nominatim_endpoint (Nominatim_request pq) = Inr resp
        \<and> py_iter resp = Inr rows
        \<and> list_all2 (\<lambda>r c. Nominatim_candidate x r = Inr c) rows cs)"
  by (auto simp: Nominatim_geocode_def Nominatim_candidates_def ebind_Inr_iff collect_Inr_iff)

lemma list_all2_rightD:
  "list_all2 P rs cs \<Longrightarrow> c \<in> set cs \<Longrightarrow> \<exists>r. r \<in> set rs \<and> P r c"
  by (auto simp: list_all2_conv_all_nth in_set_conv_nth)

lemma py_get_Inr_iff:
  "py_get ac k d = Inr v \<longleftrightarrow>
     (\<exists>kvs. ac = PDict kvs \<and> v = (case map_of kvs k of None \<Rightarrow> d | Some w \<Rightarrow> w))"
  by (cases ac) (auto split: option.splits)

lemma USCensus_candidate_fields:
  assumes "USCensus_candidate r = Inr c"
  shows "c ''match_country'' = Some (PStr ''USA'') \<and> c ''match_subregion'' = Some (PStr [])
     \<and> (\<exists>comps. getitem_key r ''addressComponents'' = Inr (PDict comps)
           \<and> c ''match_city'' = Some (get_or_empty comps ''city'')
           \<and> c ''match_region'' = Some (get_or_empty comps ''state'')
           \<and> c ''match_postal'' = Some (get_or_empty comps ''zip''))"
  using assms
  by (auto simp: USCensus_candidate_def Let_def ebind_Inr_iff py_get_Inr_iff get_or_empty_def)

lemma sample_MapQuest_request:
  "MapQuest_request (sample_ext r) sample_settings sample_query =
     Inr [(''key'', PStr ''secret''), (''json'', PStr [])]"
  by (simp add: MapQuest_request_def sample_settings_def Let_def)
     (simp add: sample_ext_def sample_query_def)

subsection \<open>The street address of a Census match\<close>













subsection \<open>Rows that make the loop body raise\<close>

lemma isl_ebind: "isl (ebind m f) \<longleftrightarrow> isl m \<or> (\<exists>v. m = Inr v \<and> isl (f v))"
  by (cases m) simp_all


lemma collect_isl:
  assumes "r \<in> set rs" "isl (mk r)"
  shows "isl (collect mk rs acc)"
proof -
  from assms(2) obtain e where "mk r = Inl e" by (cases "mk r") simp_all
  with assms(1) obtain e' where "collect mk rs acc = Inl e'"
    using collect_raises by blast
  then show ?thesis by simp
qed









subsection \<open>Where the coordinates of a candidate come from\<close>

lemma py_float_is_float: "py_float x v = Inr w \<Longrightarrow> \<exists>f. w = PFloat f"
  by (cases v) (auto split: option.splits)

lemma Nominatim_candidate_xy:
  "Nominatim_candidate x r = Inr c \<Longrightarrow> \<exists>fx fy. c ''x'' = Some (PFloat fx) \<and> c ''y'' = Some (PFloat fy)"
  by (auto simp: Nominatim_candidate_def Let_def ebind_Inr_iff dest!: py_float_is_float)

lemma Bing_candidate_xy:
  "Bing_candidate r = Inr c \<Longrightarrow>
     \<exists>xv yv. py_path r [Key ''geocodePoints'', Idx 0, Key ''coordinates'', Idx 1] = Inr xv
        \<and> c ''x'' = Some xv
        \<and> py_path r [Key ''geocodePoints'', Idx 0, Key ''coordinates'', Idx 0] = Inr yv
        \<and> c ''y'' = Some yv"
  by (auto simp: Bing_candidate_def Let_def ebind_Inr_iff)

lemma USCensus_candidate_xy:
  "USCensus_candidate r = Inr c \<Longrightarrow>
     \<exists>xv yv. py_path r [Key ''coordinates'', Key ''x''] = Inr xv \<and> c ''x'' = Some xv
        \<and> py_path r [Key ''coordinates'', Key ''y''] = Inr yv \<and> c ''y'' = Some yv"
  by (auto simp: USCensus_candidate_def Let_def ebind_Inr_iff
      dest!: USCensus_components_other[where k = "''x''"] USCensus_components_other[where k = "''y''"])

lemma MapQuest_candidate_xy:
  "MapQuest_candidate cls r = Inr c \<Longrightarrow>
     \<exists>xv yv. py_path r [Key ''latLng'', Key ''lng''] = Inr xv \<and> c ''x'' = Some xv
        \<and> py_path r [Key ''latLng'', Key ''lat''] = Inr yv \<and> c ''y'' = Some yv"
  by (auto simp: MapQuest_candidate_def Let_def ebind_Inr_iff)

lemma string_Bing_rows: "Bing_rows string_Bing_response = Inr [string_Bing_row]"
  by (simp add: Bing_rows_def string_Bing_response_def)

lemma string_Bing_row_candidate: "Bing_candidate string_Bing_row = Inr string_Bing_candidate"
  by (simp add: Bing_candidate_def string_Bing_row_def string_Bing_candidate_def Candidate_def Let_def)

section \<open>Properties of the adapters\<close>

text \<open>
  C4. Every candidate in the list that \<^verbatim>\<open>_geocode\<close> of Bing, USCensus, MapQuest (and its
  two subclasses) or Nominatim returns has the attribute \<^verbatim>\<open>geoservice\<close> set, to the name
  of the adapter's class.
\<close>

theorem geoservice_set_by_every_adapter:
  "(Bing_geocode x st pq = Inr cs \<and> c \<in> set cs \<longrightarrow> c ''geoservice'' = Some (PStr ''Bing''))
   \<and> (USCensus_geocode x pq = Inr cs \<and> c \<in> set cs \<longrightarrow> c ''geoservice'' = Some (PStr ''USCensus''))
   \<and> (MapQuest_geocode cls x st pq = Inr cs \<and> c \<in> set cs
        \<longrightarrow> c ''geoservice'' = Some (PStr (class_name cls)))
   \<and> (Nominatim_geocode x pq = Inr cs \<and> c \<in> set cs
        \<longrightarrow> c ''geoservice'' = Some (PStr ''Nominatim''))"
proof (intro conjI impI; elim conjE)
  assume "Bing_geocode x st pq = Inr cs" "c \<in> set cs"
  then obtain r where "Bing_candidate r = Inr c"
    by (auto simp: Bing_geocode_Inr_iff dest: list_all2_rightD)
  then show "c ''geoservice'' = Some (PStr ''Bing'')"
    by (simp add: Bing_candidate_geoservice)
next
  assume "USCensus_geocode x pq = Inr cs" "c \<in> set cs"
  then obtain r where "USCensus_candidate r = Inr c"
    by (auto simp: USCensus_geocode_Inr_iff dest: list_all2_rightD)
  then show "c ''geoservice'' = Some (PStr ''USCensus'')"
    by (simp add: USCensus_candidate_geoservice)
next
  assume "MapQuest_geocode cls x st pq = Inr cs" "c \<in> set cs"
  then obtain r where "MapQuest_candidate cls r = Inr c"
    by (auto simp: MapQuest_geocode_Inr_iff dest: list_all2_rightD)
  then show "c ''geoservice'' = Some (PStr (class_name cls))"
    by (simp add: MapQuest_candidate_geoservice)
next
  assume "Nominatim_geocode x pq = Inr cs" "c \<in> set cs"
  then obtain r where "Nominatim_candidate x r = Inr c"
    by (auto simp: Nominatim_geocode_Inr_iff dest: list_all2_rightD)
  then show "c ''geoservice'' = Some (PStr ''Nominatim'')"
    by (simp add: Nominatim_candidate_geoservice)
qed

theorem geoservice_set_by_every_adapter_witness:
  "Bing_geocode (sample_ext sample_Bing_response) sample_settings sample_query
     = Inr [sample_Bing_candidate]
   \<and> sample_Bing_candidate ''geoservice'' = Some (PStr ''Bing'')
   \<and> USCensus_geocode (sample_ext sample_USCensus_response) sample_query
     = Inr [sample_USCensus_candidate]
   \<and> sample_USCensus_candidate ''geoservice'' = Some (PStr ''USCensus'')
   \<and> MapQuest_geocode MapQuest (sample_ext sample_MapQuest_response) sample_settings sample_query
     = Inr [sample_MapQuest_candidate]
   \<and> sample_MapQuest_candidate ''geoservice'' = Some (PStr ''MapQuest'')
   \<and> Nominatim_geocode (sample_ext sample_Nominatim_response) sample_query
     = Inr [sample_Nominatim_candidate]
   \<and> sample_Nominatim_candidate ''geoservice'' = Some (PStr ''Nominatim'')"
proof -
  have "sample_Bing_candidate ''geoservice'' = Some (PStr ''Bing'')"
    using geoservice_set_by_every_adapter
      [where x = "sample_ext sample_Bing_response" and st = sample_settings
         and pq = sample_query and cs = "[sample_Bing_candidate]" and c = sample_Bing_candidate]
      sample_Bing_geocode
    by simp
  moreover have "sample_USCensus_candidate ''geoservice'' = Some (PStr ''USCensus'')"
    using geoservice_set_by_every_adapter
      [where x = "sample_ext sample_USCensus_response" and pq = sample_query
         and cs = "[sample_USCensus_candidate]" and c = sample_USCensus_candidate]
      sample_USCensus_geocode
    by simp
  moreover have "sample_MapQuest_candidate ''geoservice'' = Some (PStr ''MapQuest'')"
    using geoservice_set_by_every_adapter
      [where x = "sample_ext sample_MapQuest_response" and st = sample_settings
         and pq = sample_query and cs = "[sample_MapQuest_candidate]"
         and c = sample_MapQuest_candidate and cls = MapQuest]
      sample_MapQuest_geocode
    by simp
  moreover have "sample_Nominatim_candidate ''geoservice'' = Some (PStr ''Nominatim'')"
    using geoservice_set_by_every_adapter
      [where x = "sample_ext sample_Nominatim_response" and pq = sample_query
         and cs = "[sample_Nominatim_candidate]" and c = sample_Nominatim_candidate]
      sample_Nominatim_geocode
    by simp
  ultimately show ?thesis
    using sample_Bing_geocode sample_USCensus_geocode sample_MapQuest_geocode
      sample_Nominatim_geocode
    by simp
qed

text \<open>
  C7. Every candidate that an adapter returns has \<^verbatim>\<open>wkid\<close> equal to 4326. Bing, MapQuest
  and Nominatim assign it in the loop; USCensus leaves the value that \<^verbatim>\<open>Candidate()\<close>
  gives it.
\<close>

theorem wkid_4326_from_every_adapter:
  "(Bing_geocode x st pq = Inr cs \<and> c \<in> set cs \<longrightarrow> c ''wkid'' = Some (PInt 4326))
   \<and> (USCensus_geocode x pq = Inr cs \<and> c \<in> set cs \<longrightarrow> c ''wkid'' = Some (PInt 4326))
   \<and> (MapQuest_geocode cls x st pq = Inr cs \<and> c \<in> set cs \<longrightarrow> c ''wkid'' = Some (PInt 4326))
   \<and> (Nominatim_geocode x pq = Inr cs \<and> c \<in> set cs \<longrightarrow> c ''wkid'' = Some (PInt 4326))"
proof (intro conjI impI; elim conjE)
  assume "Bing_geocode x st pq = Inr cs" "c \<in> set cs"
  then obtain r where "Bing_candidate r = Inr c"
    by (auto simp: Bing_geocode_Inr_iff dest: list_all2_rightD)
  then show "c ''wkid'' = Some (PInt 4326)"
    by (simp add: Bing_candidate_geoservice)
next
  assume "USCensus_geocode x pq = Inr cs" "c \<in> set cs"
  then obtain r where "USCensus_candidate r = Inr c"
    by (auto simp: USCensus_geocode_Inr_iff dest: list_all2_rightD)
  then show "c ''wkid'' = Some (PInt 4326)"
    by (simp add: USCensus_candidate_geoservice)
next
  assume "MapQuest_geocode cls x st pq = Inr cs" "c \<in> set cs"
  then obtain r where "MapQuest_candidate cls r = Inr c"
    by (auto simp: MapQuest_geocode_Inr_iff dest: list_all2_rightD)
  then show "c ''wkid'' = Some (PInt 4326)"
    by (simp add: MapQuest_candidate_geoservice)
next
  assume "Nominatim_geocode x pq = Inr cs" "c \<in> set cs"
  then obtain r where "Nominatim_candidate x r = Inr c"
    by (auto simp: Nominatim_geocode_Inr_iff dest: list_all2_rightD)
  then show "c ''wkid'' = Some (PInt 4326)"
    by (simp add: Nominatim_candidate_geoservice)
qed

theorem wkid_4326_from_every_adapter_witness:
  "Bing_geocode (sample_ext sample_Bing_response) sample_settings sample_query
     = Inr [sample_Bing_candidate]
   \<and> sample_Bing_candidate ''wkid'' = Some (PInt 4326)
   \<and> USCensus_geocode (sample_ext sample_USCensus_response) sample_query
     = Inr [sample_USCensus_candidate]
   \<and> sample_USCensus_candidate ''wkid'' = Some (PInt 4326)
   \<and> MapQuest_geocode MapQuest (sample_ext sample_MapQuest_response) sample_settings sample_query
     = Inr [sample_MapQuest_candidate]
   \<and> sample_MapQuest_candidate ''wkid'' = Some (PInt 4326)
   \<and> Nominatim_geocode (sample_ext sample_Nominatim_response) sample_query
     = Inr [sample_Nominatim_candidate]
   \<and> sample_Nominatim_candidate ''wkid'' = Some (PInt 4326)"
proof -
  have "sample_Bing_candidate ''wkid'' = Some (PInt 4326)"
    using wkid_4326_from_every_adapter
      [where x = "sample_ext sample_Bing_response" and st = sample_settings
         and pq = sample_query and cs = "[sample_Bing_candidate]" and c = sample_Bing_candidate]
      sample_Bing_geocode
    by simp
  moreover have "sample_USCensus_candidate ''wkid'' = Some (PInt 4326)"
    using wkid_4326_from_every_adapter
      [where x = "sample_ext sample_USCensus_response" and pq = sample_query
         and cs = "[sample_USCensus_candidate]" and c = sample_USCensus_candidate]
      sample_USCensus_geocode
    by simp
  moreover have "sample_MapQuest_candidate ''wkid'' = Some (PInt 4326)"
    using wkid_4326_from_every_adapter
      [where x = "sample_ext sample_MapQuest_response" and st = sample_settings
         and pq = sample_query and cs = "[sample_MapQuest_candidate]"
         and c = sample_MapQuest_candidate and cls = MapQuest]
      sample_MapQuest_geocode
    by simp
  moreover have "sample_Nominatim_candidate ''wkid'' = Some (PInt 4326)"
    using wkid_4326_from_every_adapter
      [where x = "sample_ext sample_Nominatim_response" and pq = sample_query
         and cs = "[sample_Nominatim_candidate]" and c = sample_Nominatim_candidate]
      sample_Nominatim_geocode
    by simp
  ultimately show ?thesis
    using sample_Bing_geocode sample_USCensus_geocode sample_MapQuest_geocode
      sample_Nominatim_geocode
    by simp
qed

text \<open>
  C8. When the transport answers with a response that has no rows, \<^verbatim>\<open>_geocode\<close> returns
  the empty list: it neither raises nor makes up a candidate.
\<close>

theorem no_rows_give_empty_list:
  "(Bing_request x st pq = Inr q \<and> get_json_obj x Bing_endpoint q = Inr resp
      \<and> Bing_rows resp = Inr [] \<longrightarrow> Bing_geocode x st pq = Inr [])
   \<and> (get_json_obj x (fst (USCensus_request pq)) (snd (USCensus_request pq)) = Inr resp
      \<and> USCensus_rows resp = Inr [] \<longrightarrow> USCensus_geocode x pq = Inr [])
   \<and> (MapQuest_request x st pq = Inr q \<and> get_json_obj x (MapQuest_endpoint cls) q = Inr resp
      \<and> MapQuest_rows resp = Inr [] \<longrightarrow> MapQuest_geocode cls x st pq = Inr [])
   \<and> (get_json_obj x Nominatim_endpoint (Nominatim_request pq) = Inr resp
      \<and> py_iter resp = Inr [] \<longrightarrow> Nominatim_geocode x pq = Inr [])"
  by (simp add: Bing_geocode_Inr_iff USCensus_geocode_Inr_iff MapQuest_geocode_Inr_iff
      Nominatim_geocode_Inr_iff)

theorem no_rows_give_empty_list_witness:
  "Bing_rows empty_Bing_response = Inr []
   \<and> Bing_geocode (sample_ext empty_Bing_response) sample_settings sample_query = Inr []
   \<and> USCensus_rows empty_USCensus_response = Inr []
   \<and> USCensus_geocode (sample_ext empty_USCensus_response) sample_query = Inr []
   \<and> MapQuest_rows empty_MapQuest_response = Inr []
   \<and> MapQuest_geocode MapQuestOpen (sample_ext empty_MapQuest_response) sample_settings
        sample_query = Inr []
   \<and> py_iter (PList []) = Inr []
   \<and> Nominatim_geocode (sample_ext (PList [])) sample_query = Inr []"
proof -
  have b: "Bing_rows empty_Bing_response = Inr []"
    by (simp add: Bing_rows_def empty_Bing_response_def)
  have u: "USCensus_rows empty_USCensus_response = Inr []"
    by (simp add: USCensus_rows_def empty_USCensus_response_def)
  have m: "MapQuest_rows empty_MapQuest_response = Inr []"
    by (simp add: MapQuest_rows_def empty_MapQuest_response_def)
  have "Bing_geocode (sample_ext empty_Bing_response) sample_settings sample_query = Inr []"
    using no_rows_give_empty_list
      [where x = "sample_ext empty_Bing_response" and st = sample_settings
         and pq = sample_query and resp = empty_Bing_response
         and q = "[(''query'', PStr ''340 N 12th St, Philadelphia''), (''key'', PStr ''secret'')]"]
      b sample_Bing_request
    by simp
  moreover
  have "USCensus_geocode (sample_ext empty_USCensus_response) sample_query = Inr []"
    using no_rows_give_empty_list
      [where x = "sample_ext empty_USCensus_response" and pq = sample_query
         and resp = empty_USCensus_response] u
    by simp
  moreover
  have "MapQuest_geocode MapQuestOpen (sample_ext empty_MapQuest_response) sample_settings
          sample_query = Inr []"
    using no_rows_give_empty_list
      [where x = "sample_ext empty_MapQuest_response" and st = sample_settings
         and pq = sample_query and resp = empty_MapQuest_response and cls = MapQuestOpen
         and q = "[(''key'', PStr ''secret''), (''json'', PStr [])]"]
      m sample_MapQuest_request
    by simp
  moreover
  have "Nominatim_geocode (sample_ext (PList [])) sample_query = Inr []"
    using no_rows_give_empty_list
      [where x = "sample_ext (PList [])" and pq = sample_query and resp = "PList []"]
    by simp
  ultimately show ?thesis using b u m by simp
qed

text \<open>
  C10. Every candidate of \<^verbatim>\<open>USCensus._geocode\<close> has \<^verbatim>\<open>match_country\<close> \<^verbatim>\<open>'USA'\<close> and
  \<^verbatim>\<open>match_subregion\<close> \<^verbatim>\<open>''\<close>, and its \<^verbatim>\<open>match_city\<close>, \<^verbatim>\<open>match_region\<close> and
  \<^verbatim>\<open>match_postal\<close> are set to the \<^verbatim>\<open>city\<close>, \<^verbatim>\<open>state\<close> and \<^verbatim>\<open>zip\<close> components of its
  row, or to the empty string where the row has no such component.
\<close>

theorem USCensus_match_attributes:
  "USCensus_geocode x pq = Inr cs \<longrightarrow>
     (\<exists>resp rows.
        get_json_obj x (fst (USCensus_request pq)) (snd (USCensus_request pq)) = Inr resp
        \<and> USCensus_rows resp = Inr rows
        \<and> list_all2 (\<lambda>r c.
             c ''match_country'' = Some (PStr ''USA'') \<and> c ''match_subregion'' = Some (PStr [])
             \<and> (\<exists>comps. getitem_key r ''addressComponents'' = Inr (PDict comps)
                   \<and> c ''match_city'' = Some (get_or_empty comps ''city'')
                   \<and> c ''match_region'' = Some (get_or_empty comps ''state'')
                   \<and> c ''match_postal'' = Some (get_or_empty comps ''zip''))) rows cs)"
proof
  assume "USCensus_geocode x pq = Inr cs"
  then obtain resp rows where
    r: "get_json_obj x (fst (USCensus_request pq)) (snd (USCensus_request pq)) = Inr resp"
       "USCensus_rows resp = Inr rows"
    and l: "list_all2 (\<lambda>r c. USCensus_candidate r = Inr c) rows cs"
    by (auto simp: USCensus_geocode_Inr_iff)
  from l have "list_all2 (\<lambda>r c.
             c ''match_country'' = Some (PStr ''USA'') \<and> c ''match_subregion'' = Some (PStr [])
             \<and> (\<exists>comps. getitem_key r ''addressComponents'' = Inr (PDict comps)
                   \<and> c ''match_city'' = Some (get_or_empty comps ''city'')
                   \<and> c ''match_region'' = Some (get_or_empty comps ''state'')
                   \<and> c ''match_postal'' = Some (get_or_empty comps ''zip''))) rows cs"
    by (rule list_all2_mono) (rule USCensus_candidate_fields)
  with r show "\<exists>resp rows.
        get_json_obj x (fst (USCensus_request pq)) (snd (USCensus_request pq)) = Inr resp
        \<and> USCensus_rows resp = Inr rows
        \<and> list_all2 (\<lambda>r c.
             c ''match_country'' = Some (PStr ''USA'') \<and> c ''match_subregion'' = Some (PStr [])
             \<and> (\<exists>comps. getitem_key r ''addressComponents'' = Inr (PDict comps)
                   \<and> c ''match_city'' = Some (get_or_empty comps ''city'')
                   \<and> c ''match_region'' = Some (get_or_empty comps ''state'')
                   \<and> c ''match_postal'' = Some (get_or_empty comps ''zip''))) rows cs"
    by blast
qed

theorem USCensus_match_attributes_witness:
  "USCensus_geocode (sample_ext sample_USCensus_response) sample_query
     = Inr [sample_USCensus_candidate]
   \<and> getitem_key sample_USCensus_row ''addressComponents''
     = Inr (PDict sample_USCensus_components)
   \<and> map_of sample_USCensus_components ''zip'' = None
   \<and> sample_USCensus_candidate ''match_country'' = Some (PStr ''USA'')
   \<and> sample_USCensus_candidate ''match_subregion'' = Some (PStr [])
   \<and> sample_USCensus_candidate ''match_city'' = Some (PStr ''PHILADELPHIA'')
   \<and> sample_USCensus_candidate ''match_region'' = Some (PStr ''PA'')
   \<and> sample_USCensus_candidate ''match_postal'' = Some (PStr [])"
proof -
  have a: "getitem_key sample_USCensus_row ''addressComponents''
     = Inr (PDict sample_USCensus_components)"
    by (simp add: sample_USCensus_row_def)
  show ?thesis
    using USCensus_match_attributes
      [where x = "sample_ext sample_USCensus_response" and pq = sample_query
         and cs = "[sample_USCensus_candidate]"]
      sample_USCensus_geocode sample_USCensus_rows a
    by (auto simp: get_or_empty_def sample_USCensus_components_def)
qed







text \<open>
  C5, as stated, fails for Bing: when the JSON delivers the coordinates as strings, the
  candidate's \<^verbatim>\<open>x\<close> and \<^verbatim>\<open>y\<close> are those strings.
\<close>

theorem Bing_string_coordinates_counterexample:
  "py_path string_Bing_row [Key ''geocodePoints'', Idx 0, Key ''coordinates'', Idx 1]
     = Inr (PStr ''-122.13'')
   \<and> py_path string_Bing_row [Key ''geocodePoints'', Idx 0, Key ''coordinates'', Idx 0]
     = Inr (PStr ''47.64'')
   \<and> Bing_geocode (sample_ext string_Bing_response) sample_settings sample_query
     = Inr [string_Bing_candidate]
   \<and> string_Bing_candidate ''x'' = Some (PStr ''-122.13'')
   \<and> string_Bing_candidate ''y'' = Some (PStr ''47.64'')"
proof -
  have "Bing_geocode (sample_ext string_Bing_response) sample_settings sample_query
     = Inr [string_Bing_candidate]"
    by (simp add: Bing_geocode_def sample_Bing_request Bing_candidates_def string_Bing_rows
        string_Bing_row_candidate)
  then show ?thesis
    by (simp add: string_Bing_row_def string_Bing_candidate_def)
qed

text \<open>
  C5, amended. Nominatim converts with \<^verbatim>\<open>float\<close>: the \<^verbatim>\<open>x\<close> and \<^verbatim>\<open>y\<close> of each of its
  candidates are floats, whether the JSON gives numbers or strings. Bing, USCensus and
  MapQuest assign the coordinates of the row as they are: \<^verbatim>\<open>x\<close> and \<^verbatim>\<open>y\<close> of the
  candidate are the values the JSON holds, so they are numbers when the JSON delivers
  numbers.
\<close>

theorem coordinates_after_normalization:
  "(Nominatim_geocode x pq = Inr cs \<and> c \<in> set cs \<longrightarrow>
      (\<exists>fx fy. c ''x'' = Some (PFloat fx) \<and> c ''y'' = Some (PFloat fy)))
   \<and> (Bing_geocode x st pq = Inr cs \<longrightarrow>
      (\<exists>q resp rows. Bing_request x st pq = Inr q \<and> get_json_obj x Bing_endpoint q = Inr resp
         \<and> Bing_rows resp = Inr rows
         \<and> list_all2 (\<lambda>r c. \<exists>xv yv.
              py_path r [Key ''geocodePoints'', Idx 0, Key ''coordinates'', Idx 1] = Inr xv
              \<and> c ''x'' = Some xv
              \<and> py_path r [Key ''geocodePoints'', Idx 0, Key ''coordinates'', Idx 0] = Inr yv
              \<and> c ''y'' = Some yv) rows cs))
   \<and> (USCensus_geocode x pq = Inr cs \<longrightarrow>
      (\<exists>resp rows.
         get_json_obj x (fst (USCensus_request pq)) (snd (USCensus_request pq)) = Inr resp
         \<and> USCensus_rows resp = Inr rows
         \<and> list_all2 (\<lambda>r c. \<exists>xv yv.
              py_path r [Key ''coordinates'', Key ''x''] = Inr xv \<and> c ''x'' = Some xv
              \<and> py_path r [Key ''coordinates'', Key ''y''] = Inr yv \<and> c ''y'' = Some yv)
            rows cs))
   \<and> (MapQuest_geocode cls x st pq = Inr cs \<longrightarrow>
      (\<exists>q resp rows. MapQuest_request x st pq = Inr q
         \<and> get_json_obj x (MapQuest_endpoint cls) q = Inr resp
         \<and> MapQuest_rows resp = Inr rows
         \<and> list_all2 (\<lambda>r c. \<exists>xv yv.
              py_path r [Key ''latLng'', Key ''lng''] = Inr xv \<and> c ''x'' = Some xv
              \<and> py_path r [Key ''latLng'', Key ''lat''] = Inr yv \<and> c ''y'' = Some yv)
            rows cs))"
proof (intro conjI impI)
  assume "Nominatim_geocode x pq = Inr cs \<and> c \<in> set cs"
  then obtain r where "Nominatim_candidate x r = Inr c"
    by (auto simp: Nominatim_geocode_Inr_iff dest: list_all2_rightD)
  then show "\<exists>fx fy. c ''x'' = Some (PFloat fx) \<and> c ''y'' = Some (PFloat fy)"
    by (rule Nominatim_candidate_xy)
next
  assume "Bing_geocode x st pq = Inr cs"
  then obtain q resp rows where r: "Bing_request x st pq = Inr q"
    "get_json_obj x Bing_endpoint q = Inr resp" "Bing_rows resp = Inr rows"
    and l: "list_all2 (\<lambda>r c. Bing_candidate r = Inr c) rows cs"
    by (auto simp: Bing_geocode_Inr_iff)
  from l have "list_all2 (\<lambda>r c. \<exists>xv yv.
              py_path r [Key ''geocodePoints'', Idx 0, Key ''coordinates'', Idx 1] = Inr xv
              \<and> c ''x'' = Some xv
              \<and> py_path r [Key ''geocodePoints'', Idx 0, Key ''coordinates'', Idx 0] = Inr yv
              \<and> c ''y'' = Some yv) rows cs"
    by (rule list_all2_mono) (rule Bing_candidate_xy)
  with r show "\<exists>q resp rows. Bing_request x st pq = Inr q \<and> get_json_obj x Bing_endpoint q = Inr resp
         \<and> Bing_rows resp = Inr rows
         \<and> list_all2 (\<lambda>r c. \<exists>xv yv.
              py_path r [Key ''geocodePoints'', Idx 0, Key ''coordinates'', Idx 1] = Inr xv
              \<and> c ''x'' = Some xv
              \<and> py_path r [Key ''geocodePoints'', Idx 0, Key ''coordinates'', Idx 0] = Inr yv
              \<and> c ''y'' = Some yv) rows cs"
    by blast
next
  assume "USCensus_geocode x pq = Inr cs"
  then obtain resp rows where r:
    "get_json_obj x (fst (USCensus_request pq)) (snd (USCensus_request pq)) = Inr resp"
    "USCensus_rows resp = Inr rows"
    and l: "list_all2 (\<lambda>r c. USCensus_candidate r = Inr c) rows cs"
    by (auto simp: USCensus_geocode_Inr_iff)
  from l have "list_all2 (\<lambda>r c. \<exists>xv yv.
              py_path r [Key ''coordinates'', Key ''x''] = Inr xv \<and> c ''x'' = Some xv
              \<and> py_path r [Key ''coordinates'', Key ''y''] = Inr yv \<and> c ''y'' = Some yv)
            rows cs"
    by (rule list_all2_mono) (rule USCensus_candidate_xy)
  with r show "\<exists>resp rows.
         get_json_obj x (fst (USCensus_request pq)) (snd (USCensus_request pq)) = Inr resp
         \<and> USCensus_rows resp = Inr rows
         \<and> list_all2 (\<lambda>r c. \<exists>xv yv.
              py_path r [Key ''coordinates'', Key ''x''] = Inr xv \<and> c ''x'' = Some xv
              \<and> py_path r [Key ''coordinates'', Key ''y''] = Inr yv \<and> c ''y'' = Some yv)
            rows cs"
    by blast
next
  assume "MapQuest_geocode cls x st pq = Inr cs"
  then obtain q resp rows where r: "MapQuest_request x st pq = Inr q"
    "get_json_obj x (MapQuest_endpoint cls) q = Inr resp" "MapQuest_rows resp = Inr rows"
    and l: "list_all2 (\<lambda>r c. MapQuest_candidate cls r = Inr c) rows cs"
    by (auto simp: MapQuest_geocode_Inr_iff)
  from l have "list_all2 (\<lambda>r c. \<exists>xv yv.
              py_path r [Key ''latLng'', Key ''lng''] = Inr xv \<and> c ''x'' = Some xv
              \<and> py_path r [Key ''latLng'', Key ''lat''] = Inr yv \<and> c ''y'' = Some yv)
            rows cs"
    by (rule list_all2_mono) (rule MapQuest_candidate_xy)
  with r show "\<exists>q resp rows. MapQuest_request x st pq = Inr q
         \<and> get_json_obj x (MapQuest_endpoint cls) q = Inr resp
         \<and> MapQuest_rows resp = Inr rows
         \<and> list_all2 (\<lambda>r c. \<exists>xv yv.
              py_path r [Key ''latLng'', Key ''lng''] = Inr xv \<and> c ''x'' = Some xv
              \<and> py_path r [Key ''latLng'', Key ''lat''] = Inr yv \<and> c ''y'' = Some yv)
            rows cs"
    by blast
qed

theorem coordinates_after_normalization_witness:
  "py_path sample_Nominatim_row [Key ''lon''] = Inr (PStr ''-75.16'')
   \<and> py_path sample_Nominatim_row [Key ''lat''] = Inr (PStr ''39.95'')
   \<and> Nominatim_geocode (sample_ext sample_Nominatim_response) sample_query
     = Inr [sample_Nominatim_candidate]
   \<and> sample_Nominatim_candidate ''x'' = Some (PFloat (-75.16))
   \<and> sample_Nominatim_candidate ''y'' = Some (PFloat 39.95)
   \<and> Bing_geocode (sample_ext sample_Bing_response) sample_settings sample_query
     = Inr [sample_Bing_candidate]
   \<and> py_path sample_Bing_row [Key ''geocodePoints'', Idx 0, Key ''coordinates'', Idx 1]
     = Inr (PFloat (-122.13))
   \<and> sample_Bing_candidate ''x'' = Some (PFloat (-122.13))
   \<and> USCensus_geocode (sample_ext sample_USCensus_response) sample_query
     = Inr [sample_USCensus_candidate]
   \<and> py_path sample_USCensus_row [Key ''coordinates'', Key ''x''] = Inr (PFloat (-75.16))
   \<and> sample_USCensus_candidate ''x'' = Some (PFloat (-75.16))
   \<and> MapQuest_geocode MapQuest (sample_ext sample_MapQuest_response) sample_settings sample_query
     = Inr [sample_MapQuest_candidate]
   \<and> py_path sample_MapQuest_row [Key ''latLng'', Key ''lng''] = Inr (PFloat (-75.16))
   \<and> sample_MapQuest_candidate ''x'' = Some (PFloat (-75.16))"
proof -
  have n: "\<exists>fx fy. sample_Nominatim_candidate ''x'' = Some (PFloat fx)
      \<and> sample_Nominatim_candidate ''y'' = Some (PFloat fy)"
    using coordinates_after_normalization
      [where x = "sample_ext sample_Nominatim_response" and pq = sample_query
         and cs = "[sample_Nominatim_candidate]" and c = sample_Nominatim_candidate,
       THEN conjunct1]
      sample_Nominatim_geocode
    by simp
  have b: "\<exists>xv. py_path sample_Bing_row
        [Key ''geocodePoints'', Idx 0, Key ''coordinates'', Idx 1] = Inr xv
      \<and> sample_Bing_candidate ''x'' = Some xv"
    using coordinates_after_normalization
      [where x = "sample_ext sample_Bing_response" and st = sample_settings
         and pq = sample_query and cs = "[sample_Bing_candidate]",
       THEN conjunct2, THEN conjunct1, THEN mp, OF sample_Bing_geocode]
      sample_Bing_rows
    by auto
  have u: "\<exists>xv. py_path sample_USCensus_row [Key ''coordinates'', Key ''x''] = Inr xv
      \<and> sample_USCensus_candidate ''x'' = Some xv"
    using coordinates_after_normalization
      [where x = "sample_ext sample_USCensus_response"
         and pq = sample_query and cs = "[sample_USCensus_candidate]",
       THEN conjunct2, THEN conjunct2, THEN conjunct1, THEN mp, OF sample_USCensus_geocode]
      sample_USCensus_rows
    by auto
  have m: "\<exists>xv. py_path sample_MapQuest_row [Key ''latLng'', Key ''lng''] = Inr xv
      \<and> sample_MapQuest_candidate ''x'' = Some xv"
    using coordinates_after_normalization
      [where x = "sample_ext sample_MapQuest_response" and st = sample_settings
         and pq = sample_query and cs = "[sample_MapQuest_candidate]" and cls = MapQuest,
       THEN conjunct2, THEN conjunct2, THEN conjunct2, THEN mp, OF sample_MapQuest_geocode]
      sample_MapQuest_rows
    by auto
  have paths: "py_path sample_Nominatim_row [Key ''lon''] = Inr (PStr ''-75.16'')"
    "py_path sample_Nominatim_row [Key ''lat''] = Inr (PStr ''39.95'')"
    "py_path sample_Bing_row [Key ''geocodePoints'', Idx 0, Key ''coordinates'', Idx 1]
       = Inr (PFloat (-122.13))"
    "py_path sample_USCensus_row [Key ''coordinates'', Key ''x''] = Inr (PFloat (-75.16))"
    "py_path sample_MapQuest_row [Key ''latLng'', Key ''lng''] = Inr (PFloat (-75.16))"
    by (simp_all add: sample_Nominatim_row_def sample_Bing_row_def sample_USCensus_row_def
        sample_MapQuest_row_def)
  have ny: "sample_Nominatim_candidate ''x'' = Some (PFloat (-75.16))"
    "sample_Nominatim_candidate ''y'' = Some (PFloat 39.95)"
    using n by (simp_all add: sample_Nominatim_candidate_def)
  show ?thesis
    using b u m paths ny sample_Nominatim_geocode sample_Bing_geocode sample_USCensus_geocode
      sample_MapQuest_geocode
    by auto
qed

text \<open>
  C1, as stated, fails. With a non-empty free-form string MapQuest still puts the city,
  state, postal code and country of the query into its \<^verbatim>\<open>location\<close>: changing the city
  changes the request. Bing tests \<^verbatim>\<open>pq.query.strip()\<close>, so a free-form string of blanks is
  not empty and yet the request is built from the structured fields.
\<close>

theorem free_form_not_alone_counterexample:
  "query sample_query = ''340 N 12th St, Philadelphia''
   \<and> MapQuest_location sample_query
     = [(''street'', ''340 N 12th St, Philadelphia''), (''city'', ''Philadelphia''),
        (''state'', ''PA''), (''postalCode'', ''19107''), (''country'', ''US'')]
   \<and> MapQuest_location (sample_query\<lparr>city := ''Boston''\<rparr>)
     = [(''street'', ''340 N 12th St, Philadelphia''), (''city'', ''Boston''),
        (''state'', ''PA''), (''postalCode'', ''19107''), (''country'', ''US'')]
   \<and> query (sample_query\<lparr>query := ''  ''\<rparr>) = ''  ''
   \<and> Bing_query (sample_query\<lparr>query := ''  ''\<rparr>)
     = [(''addressLine'', PStr ''340 N 12th St''), (''locality'', PStr ''Philadelphia''),
        (''adminDistrict'', PStr ''PA''), (''postalCode'', PStr ''19107''),
        (''countryRegion'', PStr ''US'')]"
  by (simp add: MapQuest_location_def Bing_query_def sample_query_def py_strip_def py_isspace_def)

text \<open>
  C1, amended. Bing builds its query from the free-form string alone when that string is
  not blank, and from \<^verbatim>\<open>address\<close>, \<^verbatim>\<open>city\<close>, \<^verbatim>\<open>state\<close>, \<^verbatim>\<open>postal\<close> and \<^verbatim>\<open>country\<close> when
  it is blank. USCensus builds it from the free-form string alone when that is non-empty, and
  from \<^verbatim>\<open>address\<close>, \<^verbatim>\<open>city\<close>, \<^verbatim>\<open>state\<close> and \<^verbatim>\<open>postal\<close> (not \<^verbatim>\<open>country\<close>) when it is
  empty. MapQuest uses a non-empty free-form string as the street in place of \<^verbatim>\<open>address\<close>,
  which it then ignores, and falls back to \<^verbatim>\<open>address\<close> when the string is empty; in both
  cases it adds every non-empty one of \<^verbatim>\<open>city\<close>, \<^verbatim>\<open>subregion\<close>, \<^verbatim>\<open>state\<close>, \<^verbatim>\<open>postal\<close>
  and \<^verbatim>\<open>country\<close>.
\<close>

theorem request_source_by_adapter:
  "(py_strip (query pq) \<noteq> [] \<longrightarrow>
      Bing_query pq = [(''query'', PStr (query pq))]
      \<and> Bing_request x st (pq\<lparr>address := a, city := ci, state := s, postal := po, country := co\<rparr>)
          = Bing_request x st pq)
   \<and> (py_strip (query pq) = [] \<longrightarrow>
      Bing_query pq
        = [(''addressLine'', PStr (address pq)), (''locality'', PStr (city pq)),
           (''adminDistrict'', PStr (state pq)), (''postalCode'', PStr (postal pq)),
           (''countryRegion'', PStr (country pq))])
   \<and> (query pq \<noteq> [] \<longrightarrow>
      USCensus_request pq
        = (USCensus_endpoint_base @ ''onelineaddress'',
           [(''format'', PStr ''json''), (''benchmark'', PStr ''Public_AR_Current''),
            (''address'', PStr (query pq))]))
   \<and> (query pq = [] \<longrightarrow>
      USCensus_request pq
        = (USCensus_endpoint_base @ ''address'',
           [(''format'', PStr ''json''), (''benchmark'', PStr ''Public_AR_Current''),
            (''street'', PStr (address pq)), (''city'', PStr (city pq)),
            (''state'', PStr (state pq)), (''zip'', PStr (postal pq))]))
   \<and> (query pq \<noteq> [] \<longrightarrow>
      MapQuest_location pq
        = get_appended_location [(''street'', query pq)]
            [(''city'', city pq), (''county'', subregion pq), (''state'', state pq),
             (''postalCode'', postal pq), (''country'', country pq)]
      \<and> MapQuest_request x st (pq\<lparr>address := a\<rparr>) = MapQuest_request x st pq)
   \<and> (query pq = [] \<longrightarrow>
      MapQuest_location pq
        = get_appended_location (if address pq = [] then [] else [(''street'', address pq)])
            [(''city'', city pq), (''county'', subregion pq), (''state'', state pq),
             (''postalCode'', postal pq), (''country'', country pq)])"
proof (intro conjI impI)
  assume q: "py_strip (query pq) \<noteq> []"
  then show "Bing_query pq = [(''query'', PStr (query pq))]"
    by (simp add: Bing_query_def)
  from q show "Bing_request x st (pq\<lparr>address := a, city := ci, state := s, postal := po, country := co\<rparr>)
          = Bing_request x st pq"
    by (simp add: Bing_request_def Bing_query_def cong: option.case_cong)
next
  assume "py_strip (query pq) = []"
  then show "Bing_query pq
        = [(''addressLine'', PStr (address pq)), (''locality'', PStr (city pq)),
           (''adminDistrict'', PStr (state pq)), (''postalCode'', PStr (postal pq)),
           (''countryRegion'', PStr (country pq))]"
    by (simp add: Bing_query_def)
next
  assume "query pq \<noteq> []"
  then show "USCensus_request pq
        = (USCensus_endpoint_base @ ''onelineaddress'',
           [(''format'', PStr ''json''), (''benchmark'', PStr ''Public_AR_Current''),
            (''address'', PStr (query pq))])"
    by (simp add: USCensus_request_def)
next
  assume "query pq = []"
  then show "USCensus_request pq
        = (USCensus_endpoint_base @ ''address'',
           [(''format'', PStr ''json''), (''benchmark'', PStr ''Public_AR_Current''),
            (''street'', PStr (address pq)), (''city'', PStr (city pq)),
            (''state'', PStr (state pq)), (''zip'', PStr (postal pq))])"
    by (simp add: USCensus_request_def)
next
  assume q: "query pq \<noteq> []"
  then show l: "MapQuest_location pq
        = get_appended_location [(''street'', query pq)]
            [(''city'', city pq), (''county'', subregion pq), (''state'', state pq),
             (''postalCode'', postal pq), (''country'', country pq)]"
    by (simp add: MapQuest_location_def Let_def)
  from q have "MapQuest_location (pq\<lparr>address := a\<rparr>) = MapQuest_location pq"
    by (simp add: MapQuest_location_def Let_def)
  then show "MapQuest_request x st (pq\<lparr>address := a\<rparr>) = MapQuest_request x st pq"
    by (simp add: MapQuest_request_def cong: option.case_cong)
next
  assume "query pq = []"
  then show "MapQuest_location pq
        = get_appended_location (if address pq = [] then [] else [(''street'', address pq)])
            [(''city'', city pq), (''county'', subregion pq), (''state'', state pq),
             (''postalCode'', postal pq), (''country'', country pq)]"
    by (simp add: MapQuest_location_def Let_def)
qed

theorem request_source_by_adapter_witness:
  "py_strip (query sample_query) = ''340 N 12th St, Philadelphia''
   \<and> Bing_query sample_query = [(''query'', PStr ''340 N 12th St, Philadelphia'')]
   \<and> Bing_request (sample_ext PNone) sample_settings
        (sample_query\<lparr>address := [], city := [], state := [], postal := [], country := []\<rparr>)
      = Bing_request (sample_ext PNone) sample_settings sample_query
   \<and> USCensus_request sample_query
      = (USCensus_endpoint_base @ ''onelineaddress'',
         [(''format'', PStr ''json''), (''benchmark'', PStr ''Public_AR_Current''),
          (''address'', PStr ''340 N 12th St, Philadelphia'')])
   \<and> MapQuest_location sample_query
      = [(''street'', ''340 N 12th St, Philadelphia''), (''city'', ''Philadelphia''),
         (''state'', ''PA''), (''postalCode'', ''19107''), (''country'', ''US'')]
   \<and> MapQuest_request (sample_ext PNone) sample_settings (sample_query\<lparr>address := []\<rparr>)
      = MapQuest_request (sample_ext PNone) sample_settings sample_query
   \<and> query (sample_query\<lparr>query := []\<rparr>) = []
   \<and> py_strip (query (sample_query\<lparr>query := []\<rparr>)) = []
   \<and> Bing_query (sample_query\<lparr>query := []\<rparr>)
      = [(''addressLine'', PStr ''340 N 12th St''), (''locality'', PStr ''Philadelphia''),
         (''adminDistrict'', PStr ''PA''), (''postalCode'', PStr ''19107''),
         (''countryRegion'', PStr ''US'')]
   \<and> USCensus_request (sample_query\<lparr>query := []\<rparr>)
      = (USCensus_endpoint_base @ ''address'',
         [(''format'', PStr ''json''), (''benchmark'', PStr ''Public_AR_Current''),
          (''street'', PStr ''340 N 12th St''), (''city'', PStr ''Philadelphia''),
          (''state'', PStr ''PA''), (''zip'', PStr ''19107'')])
   \<and> MapQuest_location (sample_query\<lparr>query := []\<rparr>)
      = [(''street'', ''340 N 12th St''), (''city'', ''Philadelphia''),
         (''state'', ''PA''), (''postalCode'', ''19107''), (''country'', ''US'')]"
proof -
  have s: "py_strip (query sample_query) = ''340 N 12th St, Philadelphia''"
    by (simp add: py_strip_def sample_query_def py_isspace_def)
  have q: "query sample_query \<noteq> []"
    by (simp add: sample_query_def)
  have e: "query (sample_query\<lparr>query := []\<rparr>) = []"
    "py_strip (query (sample_query\<lparr>query := []\<rparr>)) = []"
    by (simp_all add: py_strip_def)
  note full = request_source_by_adapter
    [where pq = sample_query and x = "sample_ext PNone" and st = sample_settings
       and a = "[]" and ci = "[]" and s = "[]" and po = "[]" and co = "[]"]
  note empty = request_source_by_adapter
    [where pq = "sample_query\<lparr>query := []\<rparr>" and x = "sample_ext PNone"
       and st = sample_settings]
  have f1: "Bing_query sample_query = [(''query'', PStr (query sample_query))]"
    "Bing_request (sample_ext PNone) sample_settings
        (sample_query\<lparr>address := [], city := [], state := [], postal := [], country := []\<rparr>)
      = Bing_request (sample_ext PNone) sample_settings sample_query"
    using full s by simp_all
  have f2: "USCensus_request sample_query
      = (USCensus_endpoint_base @ ''onelineaddress'',
         [(''format'', PStr ''json''), (''benchmark'', PStr ''Public_AR_Current''),
          (''address'', PStr (query sample_query))])"
    using full[THEN conjunct2, THEN conjunct2, THEN conjunct1] q by simp
  have f3: "MapQuest_location sample_query
        = get_appended_location [(''street'', query sample_query)]
            [(''city'', city sample_query), (''county'', subregion sample_query),
             (''state'', state sample_query), (''postalCode'', postal sample_query),
             (''country'', country sample_query)]"
    "MapQuest_request (sample_ext PNone) sample_settings (sample_query\<lparr>address := []\<rparr>)
      = MapQuest_request (sample_ext PNone) sample_settings sample_query"
    using full[THEN conjunct2, THEN conjunct2, THEN conjunct2, THEN conjunct2, THEN conjunct1] q
    by simp_all
  have e1: "Bing_query (sample_query\<lparr>query := []\<rparr>)
      = [(''addressLine'', PStr (address sample_query)), (''locality'', PStr (city sample_query)),
         (''adminDistrict'', PStr (state sample_query)), (''postalCode'', PStr (postal sample_query)),
         (''countryRegion'', PStr (country sample_query))]"
    using empty[THEN conjunct2, THEN conjunct1] e by simp
  have e2: "USCensus_request (sample_query\<lparr>query := []\<rparr>)
      = (USCensus_endpoint_base @ ''address'',
           [(''format'', PStr ''json''), (''benchmark'', PStr ''Public_AR_Current''),
            (''street'', PStr (address sample_query)), (''city'', PStr (city sample_query)),
            (''state'', PStr (state sample_query)), (''zip'', PStr (postal sample_query))])"
    using empty[THEN conjunct2, THEN conjunct2, THEN conjunct2, THEN conjunct1] e by simp
  have e3: "MapQuest_location (sample_query\<lparr>query := []\<rparr>)
        = get_appended_location
            (if address sample_query = [] then [] else [(''street'', address sample_query)])
            [(''city'', city sample_query), (''county'', subregion sample_query),
             (''state'', state sample_query), (''postalCode'', postal sample_query),
             (''country'', country sample_query)]"
    using empty[THEN conjunct2, THEN conjunct2, THEN conjunct2, THEN conjunct2, THEN conjunct2] e
    by simp
  show ?thesis
    unfolding f1(1) f2 f3(1) e1 e2 e3
    using s e f1(2) f3(2) by (simp add: sample_query_def)
qed

section \<open>Properties of the default lists\<close>

text \<open>
  C3. A Bing service constructed with \<^verbatim>\<open>postprocessors=None\<close> gets the empty list of
  postprocessors. The class body assigns \<^verbatim>\<open>DEFAULT_POSTPROCESSORS\<close> twice: first the list
  AttrMigrator, UseHighScoreIfAtLeast, AttrFilter, AttrRename, AttrSorter, AttrSorter,
  ScoreSorter, GroupBy, GroupBy, then \<^verbatim>\<open>[]\<close>, which is the value of the attribute. None of
  the stages of the first list is in the chain of the service.
\<close>

theorem Bing_default_postprocessors_empty:
  "postprocessors (Bing_init pre None st) = []
   \<and> length Bing_DEFAULT_POSTPROCESSORS_assigned = 2
   \<and> map stage_class (Bing_DEFAULT_POSTPROCESSORS_assigned ! 0)
     = [''AttrMigrator'', ''UseHighScoreIfAtLeast'', ''AttrFilter'', ''AttrRename'',
        ''AttrSorter'', ''AttrSorter'', ''ScoreSorter'', ''GroupBy'', ''GroupBy'']
   \<and> Bing_DEFAULT_POSTPROCESSORS_assigned ! 1 = []
   \<and> Bing_DEFAULT_POSTPROCESSORS = []
   \<and> set (Bing_DEFAULT_POSTPROCESSORS_assigned ! 0) \<inter> set (postprocessors (Bing_init pre None st))
     = {}"
  by (simp add: Bing_init_def GeocodeService_init_def Bing_DEFAULT_POSTPROCESSORS_def
      Bing_DEFAULT_POSTPROCESSORS_assigned_def)

text \<open>
  C6, as stated, fails for the list that the class body of Bing assigns first: it starts
  with AttrMigrator, a migrate stage, and AttrFilter comes two places later.
\<close>

theorem Bing_first_list_order_counterexample:
  "stage_class (Bing_DEFAULT_POSTPROCESSORS_assigned ! 0 ! 0) = ''AttrMigrator''
   \<and> is_rename (Bing_DEFAULT_POSTPROCESSORS_assigned ! 0 ! 0)
   \<and> stage_class (Bing_DEFAULT_POSTPROCESSORS_assigned ! 0 ! 2) = ''AttrFilter''
   \<and> is_filter (Bing_DEFAULT_POSTPROCESSORS_assigned ! 0 ! 2)
   \<and> \<not> all_before is_filter is_rename (Bing_DEFAULT_POSTPROCESSORS_assigned ! 0)
   \<and> \<not> ordering_rule (Bing_DEFAULT_POSTPROCESSORS_assigned ! 0)"
  by (simp add: Bing_DEFAULT_POSTPROCESSORS_assigned_def ordering_rule_def)

text \<open>
  C6, amended. In the default list of postprocessors that each provider ends up with (the
  empty list for Bing, AttrFilter then AttrExclude for Nominatim) all filter and exclude
  stages come before all rename and migrate stages, these before all sort stages, and these
  before all group stages. The list that Bing assigns first has its rename and migrate
  stages before its sort stages and its sort stages before its group stages; without its
  leading AttrMigrator it follows the whole rule.
\<close>

theorem effective_default_lists_ordered:
  "ordering_rule Bing_DEFAULT_POSTPROCESSORS
   \<and> ordering_rule Nominatim_DEFAULT_POSTPROCESSORS
   \<and> all_before is_rename is_sort (Bing_DEFAULT_POSTPROCESSORS_assigned ! 0)
   \<and> all_before is_sort is_group (Bing_DEFAULT_POSTPROCESSORS_assigned ! 0)
   \<and> ordering_rule (tl (Bing_DEFAULT_POSTPROCESSORS_assigned ! 0))"
  by (simp add: Bing_DEFAULT_POSTPROCESSORS_def Bing_DEFAULT_POSTPROCESSORS_assigned_def
      Nominatim_DEFAULT_POSTPROCESSORS_def ordering_rule_def)

end
